theory Spec2Isabelle
  imports Complex_Main "HOL-Library.Monad_Syntax"
begin

section \<open>The review API of the app proxy (app/routes/api.proxy.reviews.ts)\<close>

text \<open>
  The route module has two handlers, \<open>loader\<close> (list) and \<open>action\<close> (submit),
  and three helpers: \<open>readBody\<close>, \<open>safeJson\<close> and \<open>getShopFromRequest\<close>.
  They are embedded below with the names of the source. What the handlers borrow from
  the JavaScript runtime (the conversions \<open>String\<close>, \<open>Number\<close>, \<open>BigInt\<close>,
  truthiness, \<open>Headers.get\<close>) is embedded first, following ECMAScript.

  Conventions. A \<open>char\<close> is a code unit in the range 0..255. A computation that can
  throw returns an \<open>option\<close>, with \<open>None\<close> for the exception: the handlers never
  tell one exception from another (every \<open>catch\<close> of the source is a bare one).
\<close>

subsection \<open>Strings\<close>

definition to_lower :: "char \<Rightarrow> char" where
  "to_lower c = (case map_of (zip ''ABCDEFGHIJKLMNOPQRSTUVWXYZ'' ''abcdefghijklmnopqrstuvwxyz'') c of
                   Some d \<Rightarrow> d | None \<Rightarrow> c)"

definition toLowerCase :: "string \<Rightarrow> string" where
  "toLowerCase s = map to_lower s"

definition startsWith :: "string \<Rightarrow> string \<Rightarrow> bool" where
  "startsWith s pat = (take (length pat) s = pat)"

definition endsWith :: "string \<Rightarrow> string \<Rightarrow> bool" where
  "endsWith s pat = (length pat \<le> length s \<and> drop (length s - length pat) s = pat)"

text \<open>\<open>s.includes(pat)\<close>: \<open>pat\<close> occurs in \<open>s\<close> as a contiguous run.\<close>

fun str_includes :: "string \<Rightarrow> string \<Rightarrow> bool" where
  "str_includes [] pat = (pat = [])"
| "str_includes (c # cs) pat = (if startsWith (c # cs) pat then True else str_includes cs pat)"

fun join :: "string \<Rightarrow> string list \<Rightarrow> string" where
  "join sep [] = []"
| "join sep [x] = x"
| "join sep (x # y # ys) = x @ sep @ join sep (y # ys)"

text \<open>White space and line terminators that the numeric conversions strip.\<close>

definition is_ws :: "char \<Rightarrow> bool" where
  "is_ws c = (c \<in> set [CHR 0x09, CHR 0x0A, CHR 0x0B, CHR 0x0C, CHR 0x0D, CHR 0x20, CHR 0xA0])"

definition trim :: "string \<Rightarrow> string" where
  "trim s = rev (dropWhile is_ws (rev (dropWhile is_ws s)))"

definition digit_of :: "char \<Rightarrow> int option" where
  "digit_of c = map_of
     [(CHR ''0'', 0), (CHR ''1'', 1), (CHR ''2'', 2), (CHR ''3'', 3), (CHR ''4'', 4),
      (CHR ''5'', 5), (CHR ''6'', 6), (CHR ''7'', 7), (CHR ''8'', 8), (CHR ''9'', 9),
      (CHR ''a'', 10), (CHR ''b'', 11), (CHR ''c'', 12), (CHR ''d'', 13), (CHR ''e'', 14),
      (CHR ''f'', 15), (CHR ''A'', 10), (CHR ''B'', 11), (CHR ''C'', 12), (CHR ''D'', 13),
      (CHR ''E'', 14), (CHR ''F'', 15)] c"

text \<open>The value of a non-empty run of digits of base \<open>b\<close>; \<open>None\<close> for anything else.\<close>

fun digits_acc :: "int \<Rightarrow> int \<Rightarrow> string \<Rightarrow> int option" where
  "digits_acc b a [] = Some a"
| "digits_acc b a (c # cs) =
     (case digit_of c of
        None \<Rightarrow> None
      | Some d \<Rightarrow> if d < b then digits_acc b (a * b + d) cs else None)"

definition digits_in :: "int \<Rightarrow> string \<Rightarrow> int option" where
  "digits_in b s = (if s = [] then None else digits_acc b 0 s)"

text \<open>The base of a \<open>0x\<close>, \<open>0o\<close> or \<open>0b\<close> literal (either case), with its digits.\<close>

definition radix_literal :: "string \<Rightarrow> (int \<times> string) option" where
  "radix_literal s =
     (case s of
        c0 # c1 # ds \<Rightarrow>
          if c0 = CHR ''0'' then
            (if to_lower c1 = CHR ''x'' then Some (16, ds)
             else if to_lower c1 = CHR ''o'' then Some (8, ds)
             else if to_lower c1 = CHR ''b'' then Some (2, ds)
             else None)
          else None
      | _ \<Rightarrow> None)"

function dec_digits :: "int \<Rightarrow> string" where
  "dec_digits n = (if n < 10 then [''0123456789'' ! nat n]
                   else dec_digits (n div 10) @ [''0123456789'' ! nat (n mod 10)])"
  by pat_completeness auto
termination
  by (relation "measure nat") (auto simp: int_div_less_self)

text \<open>\<open>BigInt.prototype.toString\<close>, radix 10.\<close>

definition bigint_toString :: "int \<Rightarrow> string" where
  "bigint_toString n = (if n < 0 then CHR ''-'' # dec_digits (- n) else dec_digits n)"

text \<open>
  \<open>StringToBigInt\<close>: the trimmed text is empty (the value is 0), a decimal integer with
  an optional sign, or an unsigned literal of base 16, 8 or 2. \<open>BigInt(s)\<close> throws a
  SyntaxError on anything else: \<open>None\<close>.
\<close>

definition StringToBigInt :: "string \<Rightarrow> int option" where
  "StringToBigInt str =
     (let s = trim str in
      if s = [] then Some 0
      else case radix_literal s of
        Some (b, ds) \<Rightarrow> digits_in b ds
      | None \<Rightarrow>
          (case s of
             c # r \<Rightarrow>
               if c = CHR ''-'' then map_option uminus (digits_in 10 r)
               else if c = CHR ''+'' then digits_in 10 r
               else digits_in 10 s
           | [] \<Rightarrow> None))"

subsection \<open>Numbers\<close>

text \<open>
  A Number is a double: NaN, an infinity, or a finite value, kept as the rational it
  denotes (the sign of zero is dropped; no operation of the handlers observes it).
  \<open>to_double\<close> rounds a rational to the nearest double, ties to even, overflowing
  to an infinity, as the conversions from text do.
\<close>

datatype jsnum = NaN | PosInf | NegInf | Fin rat

definition pow :: "int \<Rightarrow> int \<Rightarrow> rat" where
  "pow b e = (if 0 \<le> e then of_int b ^ nat e else 1 / of_int b ^ nat (- e))"

function ndigits :: "int \<Rightarrow> int \<Rightarrow> int" where
  "ndigits b n = (if n \<le> 0 \<or> b \<le> 1 then 0 else 1 + ndigits b (n div b))"
  by pat_completeness auto
termination
  by (relation "measure (\<lambda>(b, n). nat n)") (auto simp: int_div_less_self)

text \<open>For \<open>q > 0\<close>, the integer \<open>e\<close> with \<open>b ^ e \<le> q < b ^ (e + 1)\<close>.\<close>

definition ilog :: "int \<Rightarrow> rat \<Rightarrow> int" where
  "ilog b q = (let (n, d) = quotient_of q; e = ndigits b n - ndigits b d
               in if pow b e \<le> q then e else e - 1)"

definition round_half_even :: "rat \<Rightarrow> int" where
  "round_half_even x =
     (let f = \<lfloor>x\<rfloor>; d = x - of_int f
      in if d < 1 / 2 then f else if 1 / 2 < d then f + 1 else if even f then f else f + 1)"

definition to_double :: "rat \<Rightarrow> jsnum" where
  "to_double q =
     (if q = 0 then Fin 0
      else
        let a = \<bar>q\<bar>; e = max (ilog 2 a) (- 1022); u = pow 2 (e - 52);
            r = of_int (round_half_even (a / u)) * u
        in if pow 2 1024 \<le> r then (if q < 0 then NegInf else PosInf)
           else Fin (if q < 0 then - r else r))"

definition isFinite :: "jsnum \<Rightarrow> bool" where
  "isFinite x = (case x of Fin q \<Rightarrow> True | _ \<Rightarrow> False)"

text \<open>The relational operator \<open><\<close> on Numbers: false whenever an operand is NaN.\<close>

fun js_less :: "jsnum \<Rightarrow> jsnum \<Rightarrow> bool" where
  "js_less NaN y = False"
| "js_less x NaN = False"
| "js_less (Fin a) (Fin b) = (a < b)"
| "js_less (Fin a) PosInf = True"
| "js_less NegInf (Fin b) = True"
| "js_less NegInf PosInf = True"
| "js_less x y = False"

text \<open>
  \<open>StringToNumber\<close>: the trimmed text is empty (0), an unsigned literal of base 16, 8
  or 2, or an optionally signed \<open>Infinity\<close> or decimal literal (digits, an optional
  fraction, an optional exponent); anything else is NaN.
\<close>

definition split_at :: "(char \<Rightarrow> bool) \<Rightarrow> string \<Rightarrow> string \<times> string option" where
  "split_at P s = (case dropWhile (\<lambda>c. \<not> P c) s of
                     [] \<Rightarrow> (s, None)
                   | c # r \<Rightarrow> (takeWhile (\<lambda>c. \<not> P c) s, Some r))"

definition signed_digits :: "string \<Rightarrow> int option" where
  "signed_digits s =
     (case s of
        c # r \<Rightarrow>
          if c = CHR ''-'' then map_option uminus (digits_in 10 r)
          else if c = CHR ''+'' then digits_in 10 r
          else digits_in 10 s
      | [] \<Rightarrow> None)"

definition unsigned_decimal :: "string \<Rightarrow> rat option" where
  "unsigned_decimal s =
     (let (m, ex) = split_at (\<lambda>c. c = CHR ''e'' \<or> c = CHR ''E'') s;
          (ip, fp) = split_at (\<lambda>c. c = CHR ''.'') m;
          fr = (case fp of None \<Rightarrow> [] | Some f \<Rightarrow> f)
      in case (case ex of None \<Rightarrow> Some 0 | Some x \<Rightarrow> signed_digits x) of
           None \<Rightarrow> None
         | Some e \<Rightarrow>
             if ip = [] \<and> fr = [] then None
             else (case digits_acc 10 0 (ip @ fr) of
                     None \<Rightarrow> None
                   | Some n \<Rightarrow> Some (of_int n * pow 10 (e - int (length fr)))))"

definition StringToNumber :: "string \<Rightarrow> jsnum" where
  "StringToNumber str =
     (let s = trim str in
      if s = [] then Fin 0
      else case radix_literal s of
        Some (b, ds) \<Rightarrow> (case digits_in b ds of None \<Rightarrow> NaN | Some n \<Rightarrow> to_double (of_int n))
      | None \<Rightarrow>
          let neg = startsWith s ''-'';
              u = (if neg \<or> startsWith s ''+'' then tl s else s)
          in if u = ''Infinity'' then (if neg then NegInf else PosInf)
             else (case unsigned_decimal u of
                     None \<Rightarrow> NaN
                   | Some q \<Rightarrow> to_double (if neg then - q else q)))"

text \<open>
  \<open>Number::toString\<close>, radix 10. For a finite \<open>x > 0\<close> the digits are the shortest
  \<open>s\<close> (of \<open>k\<close> digits) with an \<open>n\<close> such that \<open>s * 10 ^ (n - k)\<close> rounds to \<open>x\<close>,
  the closest to \<open>x\<close> among these.
\<close>

definition digits_at :: "rat \<Rightarrow> int \<Rightarrow> int \<Rightarrow> int option" where
  "digits_at x n k =
     (let sc = x / pow 10 (n - k); lo = \<lfloor>sc\<rfloor>;
          ok = (\<lambda>c. to_double (of_int c * pow 10 (n - k)) = Fin x)
      in if ok lo \<and> ok (lo + 1) then Some (round_half_even sc)
         else if ok lo then Some lo
         else if ok (lo + 1) then Some (lo + 1)
         else None)"

fun shortest_digits :: "rat \<Rightarrow> int \<Rightarrow> int \<Rightarrow> nat \<Rightarrow> int \<times> int" where
  "shortest_digits x n k 0 = (round_half_even (x / pow 10 (n - k)), k)"
| "shortest_digits x n k (Suc fuel) =
     (case digits_at x n k of
        Some s \<Rightarrow> (s, k)
      | None \<Rightarrow> shortest_digits x n (k + 1) fuel)"

definition positive_toString :: "rat \<Rightarrow> string" where
  "positive_toString x =
     (let n0 = ilog 10 x + 1;
          (s0, k) = shortest_digits x n0 1 16;
          (s, n) = (if s0 = 10 ^ nat k then (s0 div 10, n0 + 1) else (s0, n0));
          ds = dec_digits s
      in if k \<le> n \<and> n \<le> 21 then ds @ replicate (nat (n - k)) CHR ''0''
         else if 0 < n \<and> n \<le> 21 then take (nat n) ds @ ''.'' @ drop (nat n) ds
         else if - 6 < n \<and> n \<le> 0 then ''0.'' @ replicate (nat (- n)) CHR ''0'' @ ds
         else
           let e = n - 1;
               ex = (if e < 0 then CHR ''-'' else CHR ''+'') # dec_digits \<bar>e\<bar>
           in if k = 1 then ds @ ''e'' @ ex
              else take 1 ds @ ''.'' @ drop 1 ds @ ''e'' @ ex)"

definition NumberToString :: "jsnum \<Rightarrow> string" where
  "NumberToString x =
     (case x of
        NaN \<Rightarrow> ''NaN''
      | PosInf \<Rightarrow> ''Infinity''
      | NegInf \<Rightarrow> ''-Infinity''
      | Fin q \<Rightarrow>
          if q = 0 then ''0''
          else if q < 0 then CHR ''-'' # positive_toString (- q)
          else positive_toString q)"

subsection \<open>Values, conversions, property access\<close>

text \<open>
  The values a request body holds: what \<open>request.json()\<close> can resolve to, with
  \<open>undefined\<close> for a property that is not there. An object is the list of its own
  properties.
\<close>

datatype jsval =
    JUndefined
  | JNull
  | JBool bool
  | JNum jsnum
  | JStr string
  | JArr "jsval list"
  | JObj "(string \<times> jsval) list"

definition nullish :: "jsval \<Rightarrow> bool" where
  "nullish v = (v = JUndefined \<or> v = JNull)"

fun truthy :: "jsval \<Rightarrow> bool" where
  "truthy JUndefined = False"
| "truthy JNull = False"
| "truthy (JBool b) = b"
| "truthy (JNum NaN) = False"
| "truthy (JNum (Fin q)) = (q \<noteq> 0)"
| "truthy (JNum x) = True"
| "truthy (JStr s) = (s \<noteq> [])"
| "truthy (JArr xs) = True"
| "truthy (JObj kvs) = True"

text \<open>
  \<open>String(v)\<close>. An array joins the texts of its elements with commas, \<open>null\<close> and
  \<open>undefined\<close> elements giving the empty text. A parsed object has no callable property
  of its own, so an object that has an own property \<open>toString\<close> hides
  \<open>Object.prototype.toString\<close> behind a value that cannot be called, and the conversion
  throws a TypeError; any other object is \<open>[object Object]\<close>.
\<close>

fun ToString :: "jsval \<Rightarrow> string option" where
  "ToString JUndefined = Some ''undefined''"
| "ToString JNull = Some ''null''"
| "ToString (JBool b) = Some (if b then ''true'' else ''false'')"
| "ToString (JNum x) = Some (NumberToString x)"
| "ToString (JStr s) = Some s"
| "ToString (JArr xs) =
     map_option (join '','')
       (those (map (\<lambda>v. if v = JUndefined \<or> v = JNull then Some [] else ToString v) xs))"
| "ToString (JObj kvs) =
     (if ''toString'' \<in> set (map fst kvs) then None else Some ''[object Object]'')"

text \<open>\<open>Number(v)\<close>; an array or an object is converted through its text.\<close>

fun ToNumber :: "jsval \<Rightarrow> jsnum option" where
  "ToNumber JUndefined = Some NaN"
| "ToNumber JNull = Some (Fin 0)"
| "ToNumber (JBool b) = Some (Fin (if b then 1 else 0))"
| "ToNumber (JNum x) = Some x"
| "ToNumber (JStr s) = Some (StringToNumber s)"
| "ToNumber v = map_option StringToNumber (ToString v)"

text \<open>
  \<open>v.name\<close> for the names the handler reads (\<open>productId\<close>, \<open>product_id\<close>, \<open>rating\<close>,
  \<open>title\<close>, \<open>body\<close>, \<open>review\<close>, \<open>author_name\<close>, \<open>author_email\<close>,
  \<open>product_handle\<close>): none of them is a property of a prototype, so the access gives the
  own property of an object and \<open>undefined\<close> otherwise, and throws a TypeError on
  \<open>null\<close> and \<open>undefined\<close>.
\<close>

fun get_prop :: "jsval \<Rightarrow> string \<Rightarrow> jsval option" where
  "get_prop JUndefined name = None"
| "get_prop JNull name = None"
| "get_prop (JObj kvs) name = Some (case map_of kvs name of Some v \<Rightarrow> v | None \<Rightarrow> JUndefined)"
| "get_prop v name = Some JUndefined"

text \<open>\<open>BigInt(String(v))\<close>: a throw of either conversion is \<open>None\<close>.\<close>

definition BigInt_of_String :: "jsval \<Rightarrow> int option" where
  "BigInt_of_String v = (case ToString v of None \<Rightarrow> None | Some s \<Rightarrow> StringToBigInt s)"

subsection \<open>Requests\<close>

text \<open>
  A request as the handlers see it: the method, the header list, the parsed URL (its
  \<open>host\<close> and its query parameters, decoded), and what reading the body gives:
  \<open>json\<close> is the value \<open>request.json()\<close> resolves to and \<open>formData\<close> the entries of
  \<open>request.formData()\<close>, each \<open>None\<close> when the promise rejects (the body does not
  parse).
\<close>

record URL =
  host :: string
  searchParams :: "(string \<times> string) list"

record request =
  req_method :: string
  headers :: "(string \<times> string) list"
  url :: URL
  json :: "jsval option"
  formData :: "(string \<times> string) list option"

text \<open>\<open>Headers.get\<close>: names compare without case; several values are joined.\<close>

definition headers_get :: "(string \<times> string) list \<Rightarrow> string \<Rightarrow> string option" where
  "headers_get hs name =
     (case map snd (filter (\<lambda>kv. toLowerCase (fst kv) = toLowerCase name) hs) of
        [] \<Rightarrow> None
      | vs \<Rightarrow> Some (join '', '' vs))"

text \<open>\<open>URLSearchParams.get\<close>: the first value of the name.\<close>

definition searchParams_get :: "URL \<Rightarrow> string \<Rightarrow> string option" where
  "searchParams_get u name = map_of (searchParams u) name"

text \<open>\<open>a || b\<close> on texts that may be \<open>null\<close>: the first that is there and not empty.\<close>

fun or_else :: "string option \<Rightarrow> string option \<Rightarrow> string option" where
  "or_else (Some a) b = (if a \<noteq> [] then Some a else b)"
| "or_else None b = b"

text \<open>
  \<open>obj[k] = v\<close> on a plain object with a text \<open>v\<close>: the last value of a key wins; an
  assignment to \<open>__proto__\<close> goes to the setter of the prototype, which ignores a text.
\<close>

fun obj_set :: "(string \<times> jsval) list \<Rightarrow> string \<Rightarrow> jsval \<Rightarrow> (string \<times> jsval) list" where
  "obj_set [] k v = [(k, v)]"
| "obj_set ((k', v') # kvs) k v = (if k' = k then (k, v) # kvs else (k', v') # obj_set kvs k v)"

definition form_object :: "(string \<times> string) list \<Rightarrow> jsval" where
  "form_object entries =
     JObj (fold (\<lambda>kv obj. if fst kv = ''__proto__'' then obj else obj_set obj (fst kv) (JStr (snd kv)))
             entries [])"

text \<open>
  \<^verbatim>\<open>
  async function readBody(request: Request) {
    const ct = request.headers.get("content-type") || "";
    if (ct.includes("application/json")) return request.json();
    if (ct.includes("application/x-www-form-urlencoded")) {
      const form = await request.formData();
      const obj: Record<string, any> = {};
      form.forEach((v, k) => (obj[k] = v));
      return obj;
    }
    try { return await request.json(); } catch { return {}; }
  }
  \<close>
\<close>

definition content_type_of :: "request \<Rightarrow> string" where
  "content_type_of req = (case headers_get (headers req) ''content-type'' of Some c \<Rightarrow> c | None \<Rightarrow> [])"

definition readBody :: "request \<Rightarrow> jsval option" where
  "readBody req =
     (let ct = content_type_of req
      in if str_includes ct ''application/json'' then json req
         else if str_includes ct ''application/x-www-form-urlencoded''
           then map_option form_object (formData req)
         else (case json req of Some v \<Rightarrow> Some v | None \<Rightarrow> Some (JObj [])))"

text \<open>
  \<^verbatim>\<open>
  function getShopFromRequest(request: Request): string | undefined {
    const hdr = request.headers.get("x-shopify-shop-domain");
    if (hdr) return hdr;
    const url = new URL(request.url);
    const q = url.searchParams.get("shop");
    if (q) return q;
    const host =
      request.headers.get("x-forwarded-host") || request.headers.get("host") || url.host;
    if (host && /\.myshopify\.com$/i.test(host)) return host;
    return undefined;
  }
  \<close>
  The regular expression has no \<open>m\<close> flag: it tests that the text ends with
  \<open>.myshopify.com\<close>, letters compared without case.
\<close>

definition myshopify_test :: "string \<Rightarrow> bool" where
  "myshopify_test h = endsWith (toLowerCase h) ''.myshopify.com''"

definition getShopFromRequest :: "request \<Rightarrow> string option" where
  "getShopFromRequest req =
     (case or_else (headers_get (headers req) ''x-shopify-shop-domain'') None of
        Some hdr \<Rightarrow> Some hdr
      | None \<Rightarrow>
          (case or_else (searchParams_get (url req) ''shop'') None of
             Some q \<Rightarrow> Some q
           | None \<Rightarrow>
               (case or_else (headers_get (headers req) ''x-forwarded-host'')
                       (or_else (headers_get (headers req) ''host'') (Some (host (url req)))) of
                  Some h \<Rightarrow> if h \<noteq> [] \<and> myshopify_test h then Some h else None
                | None \<Rightarrow> None)))"

subsection \<open>The review store\<close>

text \<open>
  The table behind \<open>prisma.review\<close>, from the migration that creates it:
  \<^verbatim>\<open>
  CREATE TYPE "ReviewStatus" AS ENUM ('pending', 'approved', 'rejected');
  CREATE TABLE "Review" (
      "id" TEXT NOT NULL,            "shopDomain" TEXT NOT NULL,
      "productId" BIGINT NOT NULL,   "productHandle" TEXT,
      "rating" INTEGER NOT NULL,     "title" TEXT,
      "body" TEXT NOT NULL,          "authorName" TEXT NOT NULL,
      "authorEmail" TEXT,            "status" "ReviewStatus" NOT NULL DEFAULT 'pending',
      "createdAt" TIMESTAMP(3) NOT NULL DEFAULT CURRENT_TIMESTAMP, ...
  \<close>
  The store is the list of its rows in the order of insertion, the clock that stamps a
  new row and the counter its identifier is made from (\<open>r0\<close>, \<open>r1\<close>, ... stand
  for the generated identifiers). The clock moves on with every row, so a later row has
  a later instant. A Number given for the INTEGER column \<open>rating\<close> is stored
  truncated toward zero (a rating of 4.5 is stored as 4). The client is taken to fail
  for one reason only: an argument that does not fit the column it is for (a
  \<open>rating\<close> that is not finite or whose integer part is outside the 32-bit range, a
  \<open>productId\<close> outside the 64-bit range, a \<open>status\<close> that is no member of the
  enumeration). A failed call throws and leaves the store as it was.
\<close>

datatype ReviewStatus = pending | approved | rejected

record review =
  review_id :: string
  shopDomain :: string
  productId :: int
  productHandle :: "string option"
  rating :: int
  title :: "string option"
  body :: string
  authorName :: string
  authorEmail :: "string option"
  status :: ReviewStatus
  createdAt :: nat

record store =
  rows :: "review list"
  clock :: nat
  next_id :: nat

text \<open>The \<open>data\<close> argument of \<open>prisma.review.create\<close>, as the handler builds it.\<close>

record ReviewCreateInput =
  data_shopDomain :: string
  data_productId :: int
  data_productHandle :: "string option"
  data_rating :: jsnum
  data_title :: "string option"
  data_body :: string
  data_authorName :: string
  data_authorEmail :: "string option"
  data_status :: ReviewStatus

text \<open>
  The value the handler puts in the \<open>status\<close> of a \<open>where\<close>: a member of the
  enumeration or, looked up under a name that \<open>Object.prototype\<close> defines, one of its
  functions or the prototype object itself (which has no enumerable property: an empty
  filter).
\<close>

datatype status_arg = StatusIs ReviewStatus | ProtoFunction | ProtoObject

record ReviewWhereInput =
  where_shopDomain :: string
  where_productId :: int
  where_status :: status_arg

datatype db_op = OpCreate ReviewCreateInput | OpFindMany ReviewWhereInput

definition fits_int64 :: "int \<Rightarrow> bool" where
  "fits_int64 n = (- (2 ^ 63) \<le> n \<and> n < 2 ^ 63)"

definition int_part :: "rat \<Rightarrow> int" where
  "int_part q = (if 0 \<le> q then \<lfloor>q\<rfloor> else \<lceil>q\<rceil>)"

definition as_int32 :: "jsnum \<Rightarrow> int option" where
  "as_int32 x =
     (case x of
        Fin q \<Rightarrow>
          if - (2 ^ 31) \<le> int_part q \<and> int_part q < 2 ^ 31 then Some (int_part q) else None
      | _ \<Rightarrow> None)"

definition review_create :: "ReviewCreateInput \<Rightarrow> store \<Rightarrow> (review \<times> store) option" where
  "review_create d db =
     (case as_int32 (data_rating d) of
        None \<Rightarrow> None
      | Some r \<Rightarrow>
          if fits_int64 (data_productId d) then
            (let row = \<lparr>review_id = CHR ''r'' # dec_digits (int (next_id db)),
                        shopDomain = data_shopDomain d,
                        productId = data_productId d,
                        productHandle = data_productHandle d,
                        rating = r,
                        title = data_title d,
                        body = data_body d,
                        authorName = data_authorName d,
                        authorEmail = data_authorEmail d,
                        status = data_status d,
                        createdAt = clock db\<rparr>
             in Some (row, db\<lparr>rows := rows db @ [row], clock := clock db + 1,
                               next_id := next_id db + 1\<rparr>))
          else None)"

text \<open>
  \<open>findMany({ where, orderBy: { createdAt: "desc" }, take: 50 })\<close>. Rows of one instant
  keep the order of insertion.
\<close>

definition status_matches :: "status_arg \<Rightarrow> ReviewStatus \<Rightarrow> bool" where
  "status_matches a s = (case a of StatusIs t \<Rightarrow> s = t | _ \<Rightarrow> True)"

definition where_matches :: "ReviewWhereInput \<Rightarrow> review \<Rightarrow> bool" where
  "where_matches w r =
     (shopDomain r = where_shopDomain w \<and> productId r = where_productId w \<and>
      status_matches (where_status w) (status r))"

definition review_findMany :: "ReviewWhereInput \<Rightarrow> store \<Rightarrow> review list option" where
  "review_findMany w db =
     (if where_status w = ProtoFunction then None
      else if fits_int64 (where_productId w) then
        Some (take 50 (sort_key (\<lambda>r. - int (createdAt r)) (filter (where_matches w) (rows db))))
      else None)"

text \<open>Every row of the store was stamped before the instant the clock shows.\<close>

definition store_ok :: "store \<Rightarrow> bool" where
  "store_ok db = list_all (\<lambda>r. createdAt r < clock db) (rows db)"

text \<open>
  \<open>ReviewStatus[name]\<close>: the enumeration is the plain object
  \<open>{ pending: 'pending', approved: 'approved', rejected: 'rejected' }\<close> of the generated
  client, so a name that is none of the three is looked up in \<open>Object.prototype\<close>;
  \<open>None\<close> is \<open>undefined\<close>.
\<close>

definition Object_prototype_functions :: "string list" where
  "Object_prototype_functions =
     [''constructor'', ''hasOwnProperty'', ''isPrototypeOf'', ''propertyIsEnumerable'',
      ''toLocaleString'', ''toString'', ''valueOf'', ''__defineGetter__'', ''__defineSetter__'',
      ''__lookupGetter__'', ''__lookupSetter__'']"

definition ReviewStatus_get :: "string \<Rightarrow> status_arg option" where
  "ReviewStatus_get name =
     (if name = ''pending'' then Some (StatusIs pending)
      else if name = ''approved'' then Some (StatusIs approved)
      else if name = ''rejected'' then Some (StatusIs rejected)
      else if name = ''__proto__'' then Some ProtoObject
      else if name \<in> set Object_prototype_functions then Some ProtoFunction
      else None)"

definition status_name :: "ReviewStatus \<Rightarrow> string" where
  "status_name s = (case s of pending \<Rightarrow> ''pending'' | approved \<Rightarrow> ''approved'' | rejected \<Rightarrow> ''rejected'')"

subsection \<open>Responses\<close>

text \<open>
  The data a handler gives to \<open>safeJson\<close>: JSON values, the BigInt of a product
  identifier and the Date of a creation time. \<open>JSON.stringify\<close> writes a Date as the
  text of its instant; \<open>DDate\<close> stands for that text in a payload.
  \<^verbatim>\<open>
  function safeJson<T>(data: T, init?: ResponseInit) {
    return new Response(
      JSON.stringify(data, (_k, v) => (typeof v === "bigint" ? v.toString() : v)),
      { headers: { "Content-Type": "application/json" }, ...init });
  }
  \<close>
  The payload of a response is the tree that is written out: the data after the
  replacer has been applied at every node.
\<close>

datatype jsdata =
    DNull
  | DBool bool
  | DNum jsnum
  | DStr string
  | DBigInt int
  | DDate nat
  | DArr "jsdata list"
  | DObj "(string \<times> jsdata) list"

fun replacer :: "jsdata \<Rightarrow> jsdata" where
  "replacer (DBigInt n) = DStr (bigint_toString n)"
| "replacer (DArr xs) = DArr (map replacer xs)"
| "replacer (DObj kvs) = DObj (map (\<lambda>kv. (fst kv, replacer (snd kv))) kvs)"
| "replacer v = v"

record response =
  resp_status :: nat
  content_type :: string
  payload :: jsdata

definition safeJson :: "jsdata \<Rightarrow> nat \<Rightarrow> response" where
  "safeJson data st = \<lparr>resp_status = st, content_type = ''application/json'', payload = replacer data\<rparr>"

definition error_body :: "string \<Rightarrow> jsdata" where
  "error_body msg = DObj [(''ok'', DBool False), (''error'', DStr msg)]"

definition opt_text :: "string option \<Rightarrow> jsdata" where
  "opt_text t = (case t of None \<Rightarrow> DNull | Some s \<Rightarrow> DStr s)"

text \<open>A row as the client returns it.\<close>

definition review_object :: "review \<Rightarrow> jsdata" where
  "review_object r =
     DObj [(''id'', DStr (review_id r)),
           (''shopDomain'', DStr (shopDomain r)),
           (''productId'', DBigInt (productId r)),
           (''productHandle'', opt_text (productHandle r)),
           (''rating'', DNum (Fin (of_int (rating r)))),
           (''title'', opt_text (title r)),
           (''body'', DStr (body r)),
           (''authorName'', DStr (authorName r)),
           (''authorEmail'', opt_text (authorEmail r)),
           (''status'', DStr (status_name (status r))),
           (''createdAt'', DDate (createdAt r))]"

subsection \<open>The list handler\<close>

text \<open>
  \<open>loader\<close> (GET): the tenant, the product identifier from the query (\<open>product_id\<close>,
  then \<open>productId\<close>), the status filter, one \<open>findMany\<close>. The handler returns the
  response and the calls it made to the store. The whole body is in a \<open>try\<close> whose
  \<open>catch\<close> answers 500.
\<close>

definition load_failed :: response where
  "load_failed = safeJson (error_body ''Failed to load reviews'') 500"

definition loader :: "request \<Rightarrow> store \<Rightarrow> response \<times> db_op list" where
  "loader req db =
     (case getShopFromRequest req of
        None \<Rightarrow>
          (safeJson (error_body
             ''Missing shop. Ensure you call via the App Proxy (/apps/<subpath>) or add ?shop=<domain>.'')
             401, [])
      | Some shop \<Rightarrow>
          let productIdRaw =
                (case searchParams_get (url req) ''product_id'' of
                   Some v \<Rightarrow> v
                 | None \<Rightarrow> (case searchParams_get (url req) ''productId'' of Some v \<Rightarrow> v | None \<Rightarrow> []))
          in if productIdRaw = [] then (safeJson (error_body ''Missing product_id'') 400, [])
             else
               (case StringToBigInt productIdRaw of
                  None \<Rightarrow> (safeJson (error_body ''Invalid product_id'') 400, [])
                | Some pid \<Rightarrow>
                    let statusParam =
                          (case searchParams_get (url req) ''status'' of Some v \<Rightarrow> v | None \<Rightarrow> ''approved'');
                        w = \<lparr>where_shopDomain = shop,
                             where_productId = pid,
                             where_status =
                               (case ReviewStatus_get statusParam of
                                  Some a \<Rightarrow> a
                                | None \<Rightarrow> StatusIs approved)\<rparr>
                    in (case review_findMany w db of
                          None \<Rightarrow> (load_failed, [OpFindMany w])
                        | Some reviews \<Rightarrow>
                            (safeJson (DObj [(''ok'', DBool True),
                                             (''reviews'', DArr (map review_object reviews))]) 200,
                             [OpFindMany w]))))"

subsection \<open>The submit handler\<close>

text \<open>
  The block \<open>// Normalize inputs\<close> of \<open>action\<close>:
  \<^verbatim>\<open>
  const productIdRaw = body.productId ?? body.product_id;
  const ratingRaw = body.rating;
  const title = body.title ? String(body.title) : null;
  const text = body.body !== undefined ? String(body.body)
             : body.review !== undefined ? String(body.review) : "";
  const authorName = body.author_name ? String(body.author_name) : "";
  const authorEmail = body.author_email ? String(body.author_email) : null;
  const productHandle = body.product_handle ? String(body.product_handle) : null;
  \<close>
\<close>

record inputs =
  in_productIdRaw :: jsval
  in_ratingRaw :: jsval
  in_title :: "string option"
  in_text :: string
  in_authorName :: string
  in_authorEmail :: "string option"
  in_productHandle :: "string option"

definition text_or_null :: "jsval \<Rightarrow> string option option" where
  "text_or_null v = (if truthy v then map_option Some (ToString v) else Some None)"

definition text_or_empty :: "jsval \<Rightarrow> string option" where
  "text_or_empty v = (if truthy v then ToString v else Some [])"

definition normalize_inputs :: "jsval \<Rightarrow> inputs option" where
  "normalize_inputs b =
     do {
       pid1 \<leftarrow> get_prop b ''productId'';
       pid2 \<leftarrow> get_prop b ''product_id'';
       ratingRaw \<leftarrow> get_prop b ''rating'';
       t \<leftarrow> get_prop b ''title'';
       title_v \<leftarrow> text_or_null t;
       bb \<leftarrow> get_prop b ''body'';
       rv \<leftarrow> get_prop b ''review'';
       text_v \<leftarrow> (if bb \<noteq> JUndefined then ToString bb
                else if rv \<noteq> JUndefined then ToString rv
                else Some []);
       an \<leftarrow> get_prop b ''author_name'';
       authorName_v \<leftarrow> text_or_empty an;
       ae \<leftarrow> get_prop b ''author_email'';
       authorEmail_v \<leftarrow> text_or_null ae;
       ph \<leftarrow> get_prop b ''product_handle'';
       productHandle_v \<leftarrow> text_or_null ph;
       Some \<lparr>in_productIdRaw = (if nullish pid1 then pid2 else pid1),
             in_ratingRaw = ratingRaw,
             in_title = title_v,
             in_text = text_v,
             in_authorName = authorName_v,
             in_authorEmail = authorEmail_v,
             in_productHandle = productHandle_v\<rparr>
     }"

text \<open>
  \<open>action\<close> (POST): the method, the tenant, the body, the inputs, then the block
  \<open>// Validate\<close> and the \<open>create\<close>, which \<open>validate_and_create\<close> embeds in the
  order of the source. The handler returns the response, the store and the calls it
  made to the store. Everything after the method check is in a \<open>try\<close> whose
  \<open>catch\<close> answers 500; the conversion of the product identifier has a \<open>try\<close> of its
  own, whose \<open>catch\<close> answers 400.
\<close>

definition submit_failed :: response where
  "submit_failed = safeJson (error_body ''Failed to submit review'') 500"

definition validate_and_create :: "string \<Rightarrow> inputs \<Rightarrow> store \<Rightarrow> response \<times> store \<times> db_op list" where
  "validate_and_create shop inp db =
     (if \<not> truthy (in_productIdRaw inp)
      then (safeJson (error_body ''product_id is required'') 400, db, [])
      else
        (case BigInt_of_String (in_productIdRaw inp) of
           None \<Rightarrow> (safeJson (error_body ''Invalid product_id'') 400, db, [])
         | Some pid \<Rightarrow>
             (case ToNumber (in_ratingRaw inp) of
                None \<Rightarrow> (submit_failed, db, [])
              | Some rating_n \<Rightarrow>
                  if \<not> isFinite rating_n \<or> js_less rating_n (Fin 1) \<or> js_less (Fin 5) rating_n
                  then (safeJson (error_body ''rating must be between 1 and 5'') 400, db, [])
                  else if in_authorName inp = [] \<or> in_text inp = []
                  then (safeJson (error_body ''author_name and body are required'') 400, db, [])
                  else
                    (let d = \<lparr>data_shopDomain = shop,
                              data_productId = pid,
                              data_productHandle = in_productHandle inp,
                              data_rating = rating_n,
                              data_title = in_title inp,
                              data_body = in_text inp,
                              data_authorName = in_authorName inp,
                              data_authorEmail = in_authorEmail inp,
                              data_status = pending\<rparr>
                     in (case review_create d db of
                           None \<Rightarrow> (submit_failed, db, [OpCreate d])
                         | Some (created, db') \<Rightarrow>
                             (safeJson (DObj [(''ok'', DBool True),
                                              (''review'', review_object created)]) 200,
                              db', [OpCreate d]))))))"

definition action :: "request \<Rightarrow> store \<Rightarrow> response \<times> store \<times> db_op list" where
  "action req db =
     (if req_method req \<noteq> ''POST'' then (safeJson (error_body ''Method not allowed'') 405, db, [])
      else
        (case getShopFromRequest req of
           None \<Rightarrow>
             (safeJson (error_body
                ''Missing shop. Ensure you post to the App Proxy (/apps/<subpath>) or add ?shop=<domain>.'')
                401, db, [])
         | Some shop \<Rightarrow>
             (case Option.bind (readBody req) normalize_inputs of
                None \<Rightarrow> (submit_failed, db, [])
              | Some inp \<Rightarrow> validate_and_create shop inp db)))"

subsection \<open>Reading a payload\<close>

fun obj_field :: "jsdata \<Rightarrow> string \<Rightarrow> jsdata option" where
  "obj_field (DObj kvs) name = map_of kvs name"
| "obj_field v name = None"

text \<open>No BigInt is left in a payload: every one has been written as a text.\<close>

fun bigint_free :: "jsdata \<Rightarrow> bool" where
  "bigint_free (DBigInt n) = False"
| "bigint_free (DArr xs) = list_all bigint_free xs"
| "bigint_free (DObj kvs) = list_all (\<lambda>kv. bigint_free (snd kv)) kvs"
| "bigint_free v = True"

subsection \<open>Sample requests\<close>

text \<open>
  The requests the scenarios below run: a POST with a JSON body and a GET with query
  parameters, on a host that is no shop domain; the tenant comes from the header.
\<close>

definition sample_db :: store where
  "sample_db = \<lparr>rows = [], clock = 1760801354000, next_id = 0\<rparr>"

definition tenant_header :: "string \<times> string" where
  "tenant_header = (''X-Shopify-Shop-Domain'', ''demo.myshopify.com'')"

definition sample_post :: "(string \<times> string) list \<Rightarrow> jsval option \<Rightarrow> request" where
  "sample_post hs j =
     \<lparr>req_method = ''POST'', headers = hs,
      url = \<lparr>host = ''reviews.example.com'', searchParams = []\<rparr>,
      json = j, formData = None\<rparr>"

definition sample_get :: "(string \<times> string) list \<Rightarrow> string \<Rightarrow> (string \<times> string) list \<Rightarrow> request" where
  "sample_get hs h q =
     \<lparr>req_method = ''GET'', headers = hs, url = \<lparr>host = h, searchParams = q\<rparr>,
      json = None, formData = None\<rparr>"

definition sample_body :: "jsval \<Rightarrow> jsval \<Rightarrow> jsval" where
  "sample_body pid rt =
     JObj [(''product_id'', pid), (''rating'', rt), (''body'', JStr ''Great''),
           (''author_name'', JStr ''Ana''), (''status'', JStr ''approved'')]"

definition sample_inputs :: "jsval \<Rightarrow> jsval \<Rightarrow> inputs" where
  "sample_inputs pid rt =
     \<lparr>in_productIdRaw = pid, in_ratingRaw = rt, in_title = None, in_text = ''Great'',
      in_authorName = ''Ana'', in_authorEmail = None, in_productHandle = None\<rparr>"

section \<open>Properties\<close>

subsection \<open>Evaluation and case analysis of the handlers\<close>

declare dec_digits.simps [simp del] ndigits.simps [simp del]

lemmas eval_defs =
  to_lower_def toLowerCase_def startsWith_def endsWith_def is_ws_def trim_def digit_of_def
  digits_in_def radix_literal_def bigint_toString_def StringToBigInt_def pow_def ilog_def
  round_half_even_def to_double_def isFinite_def split_at_def signed_digits_def
  unsigned_decimal_def StringToNumber_def nullish_def BigInt_of_String_def headers_get_def
  searchParams_get_def form_object_def content_type_of_def readBody_def myshopify_test_def
  getShopFromRequest_def fits_int64_def int_part_def as_int32_def review_create_def status_matches_def
  where_matches_def review_findMany_def Object_prototype_functions_def ReviewStatus_get_def
  status_name_def safeJson_def error_body_def opt_text_def review_object_def load_failed_def
  loader_def text_or_null_def text_or_empty_def normalize_inputs_def submit_failed_def
  validate_and_create_def action_def Let_def dec_digits.simps ndigits.simps
  sample_db_def tenant_header_def sample_post_def sample_get_def sample_body_def
  sample_inputs_def

lemma review_create_SomeD:
  assumes "review_create d db = Some (r, db')"
  shows "rows db' = rows db @ [r]" "status r = data_status d" "productId r = data_productId d"
    "shopDomain r = data_shopDomain d" "\<exists>q. data_rating d = Fin q \<and> rating r = int_part q"
    "fits_int64 (data_productId d)" "createdAt r = clock db" "clock db' = clock db + 1"
  using assms
  by (auto simp: review_create_def as_int32_def Let_def split: option.splits jsnum.splits if_splits)

lemma store_ok_empty: "store_ok \<lparr>rows = [], clock = t, next_id = n\<rparr>"
  by (simp add: store_ok_def)

lemma store_ok_review_create:
  assumes "review_create d db = Some (r, db')" and "store_ok db"
  shows "store_ok db'"
  using assms review_create_SomeD(1,7,8) [OF assms(1)]
  by (auto simp: store_ok_def list_all_iff)

text \<open>A row that is newer than every other comes first in the order of a listing.\<close>

lemma insort_newest:
  assumes "\<forall>x \<in> set xs. f r < f x"
  shows "foldr (insort_key f) xs [r] = r # foldr (insort_key f) xs []"
  using assms
proof (induction xs)
  case Nil
  then show ?case by simp
next
  case (Cons x xs)
  then have "foldr (insort_key f) xs [r] = r # foldr (insort_key f) xs []" by simp
  moreover have "\<not> f x \<le> f r" using Cons.prems by auto
  ultimately show ?case by simp
qed

lemma sort_key_newest:
  fixes f :: "'a \<Rightarrow> int"
  assumes "\<forall>x \<in> set xs. f r < f x"
  shows "sort_key f (xs @ [r]) = r # sort_key f xs"
  using insort_newest [OF assms] by (simp add: sort_key_def)

text \<open>What a 200 of the validation block means, and what any other answer means.\<close>

lemma validate_and_create_200:
  assumes "validate_and_create shop inp db = (resp, db', ops)" "resp_status resp = 200"
  shows "\<exists>pid rt r. truthy (in_productIdRaw inp) \<and> BigInt_of_String (in_productIdRaw inp) = Some pid \<and>
           ToNumber (in_ratingRaw inp) = Some rt \<and> isFinite rt \<and>
           \<not> js_less rt (Fin 1) \<and> \<not> js_less (Fin 5) rt \<and>
           in_authorName inp \<noteq> [] \<and> in_text inp \<noteq> [] \<and>
           review_create \<lparr>data_shopDomain = shop, data_productId = pid,
               data_productHandle = in_productHandle inp, data_rating = rt, data_title = in_title inp,
               data_body = in_text inp, data_authorName = in_authorName inp,
               data_authorEmail = in_authorEmail inp, data_status = pending\<rparr> db = Some (r, db') \<and>
           resp = safeJson (DObj [(''ok'', DBool True), (''review'', review_object r)]) 200 \<and>
           ops = [OpCreate \<lparr>data_shopDomain = shop, data_productId = pid,
               data_productHandle = in_productHandle inp, data_rating = rt, data_title = in_title inp,
               data_body = in_text inp, data_authorName = in_authorName inp,
               data_authorEmail = in_authorEmail inp, data_status = pending\<rparr>]"
  using assms
  by (auto simp: validate_and_create_def safeJson_def submit_failed_def Let_def
      split: if_splits option.splits prod.splits)

lemma validate_and_create_not_200:
  assumes "validate_and_create shop inp db = (resp, db', ops)" "resp_status resp \<noteq> 200"
  shows "db' = db"
  using assms
  by (auto simp: validate_and_create_def safeJson_def submit_failed_def Let_def
      split: if_splits option.splits prod.splits)

lemma validate_and_create_ops:
  assumes "validate_and_create shop inp db = (resp, db', ops)" "OpCreate d \<in> set ops"
  shows "data_status d = pending \<and> data_shopDomain d = shop \<and>
         (\<exists>q. ToNumber (in_ratingRaw inp) = Some (Fin q) \<and> data_rating d = Fin q \<and> 1 \<le> q \<and> q \<le> 5) \<and>
         BigInt_of_String (in_productIdRaw inp) = Some (data_productId d)"
  using assms
  by (auto simp: validate_and_create_def safeJson_def submit_failed_def Let_def isFinite_def
      split: if_splits option.splits prod.splits jsnum.splits)

text \<open>The four ways through \<open>action\<close>.\<close>

lemma action_cases:
  "(req_method req \<noteq> ''POST'' \<and> action req db = (safeJson (error_body ''Method not allowed'') 405, db, [])) \<or>
   (req_method req = ''POST'' \<and> getShopFromRequest req = None \<and>
      action req db = (safeJson (error_body
        ''Missing shop. Ensure you post to the App Proxy (/apps/<subpath>) or add ?shop=<domain>.'')
        401, db, [])) \<or>
   (req_method req = ''POST'' \<and> (\<exists>shop. getShopFromRequest req = Some shop) \<and>
      Option.bind (readBody req) normalize_inputs = None \<and> action req db = (submit_failed, db, [])) \<or>
   (req_method req = ''POST'' \<and> (\<exists>shop b inp. getShopFromRequest req = Some shop \<and> readBody req = Some b \<and>
      normalize_inputs b = Some inp \<and> action req db = validate_and_create shop inp db))"
  by (auto simp: action_def split: option.splits Option.bind_splits)

lemma action_validated:
  assumes "req_method req = ''POST''" "getShopFromRequest req = Some shop" "readBody req = Some b"
    "normalize_inputs b = Some inp"
  shows "action req db = validate_and_create shop inp db"
  using assms by (simp add: action_def)

lemma sample_post_validated:
  "req_method (sample_post [tenant_header] (Some (sample_body pid rt))) = ''POST''"
  "getShopFromRequest (sample_post [tenant_header] (Some (sample_body pid rt))) = Some ''demo.myshopify.com''"
  "readBody (sample_post [tenant_header] (Some (sample_body pid rt))) = Some (sample_body pid rt)"
  "normalize_inputs (sample_body pid rt) = Some (sample_inputs pid rt)"
  by (simp_all add: eval_defs)

lemma bad_ratings:
  assumes "v \<in> {JNum (Fin 0), JNum (Fin 6), JStr ''abc'', JNum NaN, JStr ''NaN'', JUndefined}"
  shows "\<exists>rt. ToNumber v = Some rt \<and> (\<not> isFinite rt \<or> js_less rt (Fin 1) \<or> js_less (Fin 5) rt)"
proof -
  have "StringToNumber ''abc'' = NaN" "StringToNumber ''NaN'' = NaN"
    by (simp_all add: eval_defs)
  then show ?thesis using assms by (auto simp: isFinite_def)
qed

lemma normalize_inputs_rating:
  "normalize_inputs b = Some inp \<Longrightarrow> get_prop b ''rating'' = Some (in_ratingRaw inp)"
  by (auto simp: normalize_inputs_def split: Option.bind_splits)

lemma normalize_inputs_productId:
  "normalize_inputs b = Some inp \<Longrightarrow>
     \<exists>p1 p2. get_prop b ''productId'' = Some p1 \<and> get_prop b ''product_id'' = Some p2 \<and>
             in_productIdRaw inp = (if nullish p1 then p2 else p1)"
  by (auto simp: normalize_inputs_def split: Option.bind_splits)

lemma endsWith_iff: "endsWith s pat \<longleftrightarrow> (\<exists>p. s = p @ pat)"
proof
  assume "endsWith s pat"
  then have "s = take (length s - length pat) s @ pat"
    by (metis append_take_drop_id endsWith_def)
  then show "\<exists>p. s = p @ pat" ..
next
  assume "\<exists>p. s = p @ pat"
  then show "endsWith s pat" by (auto simp: endsWith_def)
qed

lemma validate_and_create_status:
  "resp_status (fst (validate_and_create shop inp db)) \<in> {200, 400, 500}"
  by (auto simp: validate_and_create_def safeJson_def submit_failed_def Let_def
      split: option.splits prod.splits)

lemma action_resolved_not_401:
  assumes "getShopFromRequest req = Some shop"
  shows "resp_status (fst (action req db)) \<noteq> 401"
proof -
  consider (wrong_method) "action req db = (safeJson (error_body ''Method not allowed'') 405, db, [])"
    | (failed) "action req db = (submit_failed, db, [])"
    | (validated) s i where "action req db = validate_and_create s i db"
    using action_cases [of req db] assms by auto
  then show ?thesis
  proof cases
    case wrong_method
    then show ?thesis by (simp add: safeJson_def)
  next
    case failed
    then show ?thesis by (simp add: safeJson_def submit_failed_def)
  next
    case validated
    then show ?thesis using validate_and_create_status [of s i db] by auto
  qed
qed

lemma loader_resolved_not_401:
  assumes "getShopFromRequest req = Some shop"
  shows "resp_status (fst (loader req db)) \<noteq> 401"
  using assms
  by (auto simp: loader_def safeJson_def load_failed_def Let_def split: option.splits)

lemma BigInt_of_String_zero: "BigInt_of_String (JStr ''0'') = Some 0"
  by (simp add: eval_defs)

lemma normalize_empty_object:
  "normalize_inputs (JObj []) = Some \<lparr>in_productIdRaw = JUndefined, in_ratingRaw = JUndefined,
     in_title = None, in_text = [], in_authorName = [], in_authorEmail = None, in_productHandle = None\<rparr>"
  by (simp add: normalize_inputs_def text_or_null_def text_or_empty_def nullish_def)

lemma sample_post_facts:
  "req_method (sample_post hs j) = ''POST''" "json (sample_post hs j) = j"
  "formData (sample_post hs j) = None" "headers (sample_post hs j) = hs"
  "host (url (sample_post hs j)) = ''reviews.example.com''"
  "searchParams (url (sample_post hs j)) = []"
  by (simp_all add: sample_post_def)

lemma sample_headers:
  "headers_get [tenant_header] ''x-shopify-shop-domain'' = Some ''demo.myshopify.com''"
  "headers_get [tenant_header] ''content-type'' = None"
  "headers_get [tenant_header, (''Content-Type'', v)] ''x-shopify-shop-domain'' = Some ''demo.myshopify.com''"
  "headers_get [tenant_header, (''Content-Type'', v)] ''content-type'' = Some v"
  by (simp_all add: headers_get_def tenant_header_def toLowerCase_def to_lower_def)

lemma sample_post_tenant:
  "getShopFromRequest (sample_post [tenant_header] j) = Some ''demo.myshopify.com''"
  "getShopFromRequest (sample_post [tenant_header, (''Content-Type'', v)] j) = Some ''demo.myshopify.com''"
  by (simp_all add: getShopFromRequest_def sample_post_facts sample_headers)

lemma sample_post_content_type:
  "content_type_of (sample_post [tenant_header] j) = []"
  "content_type_of (sample_post [tenant_header, (''Content-Type'', v)] j) = v"
  by (simp_all add: content_type_of_def sample_post_facts sample_headers)

lemma myshopify_test_iff: "myshopify_test h \<longleftrightarrow> (\<exists>p. toLowerCase h = p @ ''.myshopify.com'')"
  by (simp add: myshopify_test_def endsWith_iff)

lemma or_else_None_iff: "or_else a None = None \<longleftrightarrow> a \<in> {None, Some []}"
  by (cases a) auto

lemma host_candidate_Some:
  "\<exists>c. or_else x (or_else y (Some h)) = Some c"
  by (cases x; cases y) auto

lemma or_else_Some_iff: "or_else a None = Some x \<longleftrightarrow> a = Some x \<and> x \<noteq> []"
  by (cases a) auto

text \<open>Resolution fails exactly when no source yields a value.\<close>

lemma getShopFromRequest_None_iff:
  "getShopFromRequest req = None \<longleftrightarrow>
     headers_get (headers req) ''x-shopify-shop-domain'' \<in> {None, Some []} \<and>
     searchParams_get (url req) ''shop'' \<in> {None, Some []} \<and>
     (\<exists>c. or_else (headers_get (headers req) ''x-forwarded-host'')
            (or_else (headers_get (headers req) ''host'') (Some (host (url req)))) = Some c \<and>
          \<not> myshopify_test c)"
proof -
  obtain c where c: "or_else (headers_get (headers req) ''x-forwarded-host'')
            (or_else (headers_get (headers req) ''host'') (Some (host (url req)))) = Some c"
    using host_candidate_Some by blast
  have e: "myshopify_test c \<Longrightarrow> c \<noteq> []"
    by (auto simp: myshopify_test_iff toLowerCase_def)
  show ?thesis
  proof (cases "or_else (headers_get (headers req) ''x-shopify-shop-domain'') None")
    case (Some h)
    then show ?thesis
      by (auto simp: getShopFromRequest_def or_else_Some_iff)
  next
    case None
    note hdr = this
    show ?thesis
    proof (cases "or_else (searchParams_get (url req) ''shop'') None")
      case (Some q)
      then show ?thesis using hdr
        by (auto simp: getShopFromRequest_def or_else_Some_iff)
    next
      case None
      then show ?thesis using hdr e
        by (auto simp: getShopFromRequest_def c or_else_None_iff)
    qed
  qed
qed

lemma sample_get_facts:
  "req_method (sample_get hs h q) = ''GET''" "headers (sample_get hs h q) = hs"
  "host (url (sample_get hs h q)) = h" "searchParams (url (sample_get hs h q)) = q"
  "json (sample_get hs h q) = None" "formData (sample_get hs h q) = None"
  by (simp_all add: sample_get_def)

lemma no_headers: "headers_get [] name = None"
  by (simp add: headers_get_def)

lemma sample_hosts:
  "\<not> myshopify_test ''reviews.example.com''" "myshopify_test ''demo.myshopify.com''"
  by (simp_all add: myshopify_test_def endsWith_def toLowerCase_def to_lower_def)

lemma sample_get_headers:
  "headers_get [tenant_header] ''x-shopify-shop-domain'' = Some ''demo.myshopify.com''"
  "headers_get [(''Host'', v)] ''x-shopify-shop-domain'' = None"
  "headers_get [(''Host'', v)] ''x-forwarded-host'' = None"
  "headers_get [(''Host'', v)] ''host'' = Some v"
  by (simp_all add: headers_get_def tenant_header_def toLowerCase_def to_lower_def)

text \<open>The status filter of a listing whose status parameter is absent or names no property.\<close>

lemma loader_listing:
  assumes "getShopFromRequest req = Some shop"
    and "searchParams_get (url req) ''product_id'' = Some t" and "t \<noteq> []"
    and "StringToBigInt t = Some pid"
    and "w = \<lparr>where_shopDomain = shop, where_productId = pid,
              where_status =
                (case ReviewStatus_get (case searchParams_get (url req) ''status'' of
                                          Some v \<Rightarrow> v | None \<Rightarrow> ''approved'') of
                   Some a \<Rightarrow> a | None \<Rightarrow> StatusIs approved)\<rparr>"
  shows "loader req db =
           (case review_findMany w db of
              None \<Rightarrow> (load_failed, [OpFindMany w])
            | Some reviews \<Rightarrow>
                (safeJson (DObj [(''ok'', DBool True), (''reviews'', DArr (map review_object reviews))]) 200,
                 [OpFindMany w]))"
  unfolding loader_def assms(5) using assms(1-4) by (simp add: Let_def)

lemma ReviewStatus_get_approved: "ReviewStatus_get ''approved'' = Some (StatusIs approved)"
  by (simp add: ReviewStatus_get_def)

lemma loader_status_default:
  assumes "getShopFromRequest req = Some shop"
    and "searchParams_get (url req) ''product_id'' = Some t" and "t \<noteq> []"
    and "StringToBigInt t = Some pid" and "fits_int64 pid"
    and "searchParams_get (url req) ''status'' = None \<or>
         (\<exists>v. searchParams_get (url req) ''status'' = Some v \<and> ReviewStatus_get v = None)"
  shows "snd (loader req db) =
           [OpFindMany \<lparr>where_shopDomain = shop, where_productId = pid, where_status = StatusIs approved\<rparr>] \<and>
         resp_status (fst (loader req db)) = 200"
proof -
  have s: "(case ReviewStatus_get (case searchParams_get (url req) ''status'' of
                                          Some v \<Rightarrow> v | None \<Rightarrow> ''approved'') of
                   Some a \<Rightarrow> a | None \<Rightarrow> StatusIs approved) = StatusIs approved"
    using assms(6) by (auto simp: ReviewStatus_get_approved)
  show ?thesis
    using loader_listing [OF assms(1-4) refl, of db] assms(5)
    by (simp add: s review_findMany_def safeJson_def)
qed

lemma bigint_free_replacer: "bigint_free (replacer d)"
  by (induction d) (auto simp: list_all_iff)

lemma productId_rendered:
  "obj_field (replacer (review_object r)) ''productId'' = Some (DStr (bigint_toString (productId r)))"
  by (simp add: review_object_def)

lemma loader_bigint_free: "bigint_free (payload (fst (loader req db)))"
  by (auto simp: loader_def safeJson_def load_failed_def Let_def bigint_free_replacer list_all_iff
      split: option.splits)

lemma validate_and_create_bigint_free: "bigint_free (payload (fst (validate_and_create shop inp db)))"
  by (auto simp: validate_and_create_def safeJson_def submit_failed_def Let_def bigint_free_replacer
      list_all_iff split: option.splits)

lemma action_bigint_free: "bigint_free (payload (fst (action req db)))"
  using action_cases [of req db] validate_and_create_bigint_free
  by (auto simp: safeJson_def submit_failed_def bigint_free_replacer)

lemma sample_id_text:
  "BigInt_of_String (JStr ''123456789012345'') = Some 123456789012345"
  "StringToBigInt ''123456789012345'' = Some 123456789012345"
  "bigint_toString 123456789012345 = ''123456789012345''"
  by (simp_all add: eval_defs)

lemma ReviewStatus_get_pending: "ReviewStatus_get ''pending'' = Some (StatusIs pending)"
  by (simp add: ReviewStatus_get_def)

subsection \<open>C1: a review is created pending\<close>

text \<open>
  Claim C1. Whatever the request holds (a \<open>status\<close> field of the body included), when
  the submit handler answers 200 it has appended exactly one row to the store, that row
  has status \<open>pending\<close>, and the review in the payload is that row with the status
  written \<open>pending\<close>. Any other answer leaves the store as it was, and every
  \<open>create\<close> the handler issues asks for \<open>pending\<close>.
\<close>

theorem C1_created_review_is_pending:
  assumes "action req db = (resp, db', ops)"
  shows "(resp_status resp = 200 \<longrightarrow>
            (\<exists>r. rows db' = rows db @ [r] \<and> status r = pending \<and>
                 payload resp = DObj [(''ok'', DBool True), (''review'', replacer (review_object r))] \<and>
                 obj_field (replacer (review_object r)) ''status'' = Some (DStr ''pending''))) \<and>
         (resp_status resp \<noteq> 200 \<longrightarrow> db' = db) \<and>
         (\<forall>d. OpCreate d \<in> set ops \<longrightarrow> data_status d = pending)"
proof -
  consider (other) "resp_status resp \<noteq> 200" "db' = db" "ops = []"
    | (validated) shop inp where "validate_and_create shop inp db = (resp, db', ops)"
    using action_cases [of req db] assms
    by (auto simp: safeJson_def submit_failed_def)
  then show ?thesis
  proof cases
    case other
    then show ?thesis by simp
  next
    case validated
    have ops: "\<forall>d. OpCreate d \<in> set ops \<longrightarrow> data_status d = pending"
      using validate_and_create_ops [OF validated] by blast
    have unchanged: "resp_status resp \<noteq> 200 \<longrightarrow> db' = db"
      using validate_and_create_not_200 [OF validated] by blast
    have created: "\<exists>r. rows db' = rows db @ [r] \<and> status r = pending \<and>
                 payload resp = DObj [(''ok'', DBool True), (''review'', replacer (review_object r))] \<and>
                 obj_field (replacer (review_object r)) ''status'' = Some (DStr ''pending'')"
      if ok: "resp_status resp = 200"
    proof -
      from validate_and_create_200 [OF validated ok] obtain d r where
        c: "review_create d db = Some (r, db')" and s: "data_status d = pending" and
        p: "resp = safeJson (DObj [(''ok'', DBool True), (''review'', review_object r)]) 200"
        by force
      have "status r = pending" using review_create_SomeD(2) [OF c] s by simp
      moreover have "rows db' = rows db @ [r]" using review_create_SomeD(1) [OF c] .
      ultimately show ?thesis using p
        by (auto simp: safeJson_def review_object_def status_name_def)
    qed
    show ?thesis using ops unchanged created by blast
  qed
qed

theorem C1_witness:
  "resp_status (fst (action (sample_post [tenant_header] (Some (sample_body (JStr ''42'') (JNum (Fin 5))))) sample_db)) = 200 \<and>
   (\<exists>r. rows (fst (snd (action (sample_post [tenant_header] (Some (sample_body (JStr ''42'') (JNum (Fin 5))))) sample_db)))
          = rows sample_db @ [r] \<and> status r = pending)"
proof -
  let ?req = "sample_post [tenant_header] (Some (sample_body (JStr ''42'') (JNum (Fin 5))))"
  obtain resp db' ops where a: "action ?req sample_db = (resp, db', ops)"
    by (cases "action ?req sample_db") auto
  have "resp_status (fst (action ?req sample_db)) = 200"
    by (simp add: eval_defs)
  then have ok: "resp_status resp = 200" using a by simp
  from C1_created_review_is_pending [OF a] ok
  show ?thesis using a by auto
qed

subsection \<open>C2: the rating\<close>

text \<open>
  Claim C2 says that a rating is accepted only if it is an integer from 1 to 5. The
  check of the handler is \<open>!Number.isFinite(rating) || rating < 1 || rating > 5\<close>, with
  no test for an integer: a submission with \<open>rating: 4.5\<close> is answered 200, and the
  review is stored with the rating 4.
\<close>

theorem C2_counterexample:
  "normalize_inputs (sample_body (JStr ''42'') (JNum (Fin (9 / 2))))
     = Some (sample_inputs (JStr ''42'') (JNum (Fin (9 / 2)))) \<and>
   in_ratingRaw (sample_inputs (JStr ''42'') (JNum (Fin (9 / 2)))) = JNum (Fin (9 / 2)) \<and>
   resp_status (fst (action (sample_post [tenant_header]
       (Some (sample_body (JStr ''42'') (JNum (Fin (9 / 2)))))) sample_db)) = 200 \<and>
   map rating (rows (fst (snd (action (sample_post [tenant_header]
       (Some (sample_body (JStr ''42'') (JNum (Fin (9 / 2)))))) sample_db)))) = [4]"
proof -
  let ?row = "\<lparr>review_id = ''r0'', shopDomain = ''demo.myshopify.com'', productId = 42,
      productHandle = None, rating = 4, title = None, body = ''Great'', authorName = ''Ana'',
      authorEmail = None, status = pending, createdAt = 1760801354000\<rparr>"
  have b: "BigInt_of_String (JStr ''42'') = Some 42"
    by (simp add: eval_defs)
  have f: "\<lfloor>9 / 2 :: rat\<rfloor> = 4"
    by (simp add: floor_eq_iff)
  have "validate_and_create ''demo.myshopify.com'' (sample_inputs (JStr ''42'') (JNum (Fin (9 / 2)))) sample_db
     = (safeJson (DObj [(''ok'', DBool True), (''review'', review_object ?row)]) 200,
        \<lparr>rows = [?row], clock = 1760801354001, next_id = 1\<rparr>,
        [OpCreate \<lparr>data_shopDomain = ''demo.myshopify.com'', data_productId = 42,
           data_productHandle = None, data_rating = Fin (9 / 2), data_title = None,
           data_body = ''Great'', data_authorName = ''Ana'', data_authorEmail = None,
           data_status = pending\<rparr>])"
    by (simp add: validate_and_create_def sample_inputs_def b isFinite_def review_create_def
        as_int32_def int_part_def f fits_int64_def sample_db_def dec_digits.simps Let_def)
  then have "action (sample_post [tenant_header] (Some (sample_body (JStr ''42'') (JNum (Fin (9 / 2))))))
                sample_db
     = (safeJson (DObj [(''ok'', DBool True), (''review'', review_object ?row)]) 200,
        \<lparr>rows = [?row], clock = 1760801354001, next_id = 1\<rparr>,
        [OpCreate \<lparr>data_shopDomain = ''demo.myshopify.com'', data_productId = 42,
           data_productHandle = None, data_rating = Fin (9 / 2), data_title = None,
           data_body = ''Great'', data_authorName = ''Ana'', data_authorEmail = None,
           data_status = pending\<rparr>])"
    using action_validated [OF sample_post_validated, of "JStr ''42''" "JNum (Fin (9 / 2))" sample_db]
    by simp
  then show ?thesis
    by (simp add: sample_post_validated sample_inputs_def safeJson_def)
qed

text \<open>
  Claim C2, amended. For a submission that reaches the checks (a POST with a tenant, a
  body that was read and inputs that were normalised), with \<open>rating\<close> the field of
  that name: a 200 means that \<open>Number(rating)\<close> is a finite number from 1 to 5, and
  that the one row appended holds its integer part, an integer from 1 to 5; a
  \<open>create\<close> is issued only when \<open>Number(rating)\<close> is a finite number from 1 to 5.
  The ratings \<open>0\<close>, \<open>6\<close>, \<open>"abc"\<close>, \<open>NaN\<close> (as a number or as the text of a
  form field) and an absent rating are answered 400 with the store untouched and no
  call made to it, with the message about the rating when the product identifier is a
  valid one. With a valid product identifier, the answer is the 400 about the rating
  exactly when \<open>Number(rating)\<close> is not a finite number from 1 to 5.
\<close>

theorem C2_rating_finite_between_1_and_5:
  assumes "req_method req = ''POST''" "getShopFromRequest req = Some shop"
    "readBody req = Some b" "normalize_inputs b = Some inp"
  shows "get_prop b ''rating'' = Some (in_ratingRaw inp) \<and>
    (resp_status (fst (action req db)) = 200 \<longrightarrow>
       (\<exists>q r. ToNumber (in_ratingRaw inp) = Some (Fin q) \<and> 1 \<le> q \<and> q \<le> 5 \<and>
              rows (fst (snd (action req db))) = rows db @ [r] \<and>
              rating r = \<lfloor>q\<rfloor> \<and> 1 \<le> rating r \<and> rating r \<le> 5)) \<and>
    ((\<exists>d. OpCreate d \<in> set (snd (snd (action req db)))) \<longrightarrow>
       (\<exists>q. ToNumber (in_ratingRaw inp) = Some (Fin q) \<and> 1 \<le> q \<and> q \<le> 5)) \<and>
    (in_ratingRaw inp \<in> {JNum (Fin 0), JNum (Fin 6), JStr ''abc'', JNum NaN, JStr ''NaN'', JUndefined} \<longrightarrow>
       resp_status (fst (action req db)) = 400 \<and> snd (action req db) = (db, []) \<and>
       (truthy (in_productIdRaw inp) \<and> BigInt_of_String (in_productIdRaw inp) \<noteq> None \<longrightarrow>
          fst (action req db) = safeJson (error_body ''rating must be between 1 and 5'') 400)) \<and>
    (\<forall>rt. truthy (in_productIdRaw inp) \<and> BigInt_of_String (in_productIdRaw inp) \<noteq> None \<and>
          ToNumber (in_ratingRaw inp) = Some rt \<longrightarrow>
          (fst (action req db) = safeJson (error_body ''rating must be between 1 and 5'') 400)
            = (\<not> (\<exists>q. rt = Fin q \<and> 1 \<le> q \<and> q \<le> 5)))"
proof -
  have a: "action req db = validate_and_create shop inp db"
    using assms by (rule action_validated)
  obtain resp db' ops where v: "validate_and_create shop inp db = (resp, db', ops)"
    by (cases "validate_and_create shop inp db") auto
  have p1: "get_prop b ''rating'' = Some (in_ratingRaw inp)"
    using assms(4) by (rule normalize_inputs_rating)
  have p2: "\<exists>q r. ToNumber (in_ratingRaw inp) = Some (Fin q) \<and> 1 \<le> q \<and> q \<le> 5 \<and>
              rows db' = rows db @ [r] \<and> rating r = \<lfloor>q\<rfloor> \<and> 1 \<le> rating r \<and> rating r \<le> 5"
    if ok: "resp_status resp = 200"
  proof -
    from validate_and_create_200 [OF v ok] obtain pid rt r where
      rt: "ToNumber (in_ratingRaw inp) = Some rt" "isFinite rt"
        "\<not> js_less rt (Fin 1)" "\<not> js_less (Fin 5) rt" and
      c: "review_create \<lparr>data_shopDomain = shop, data_productId = pid,
               data_productHandle = in_productHandle inp, data_rating = rt, data_title = in_title inp,
               data_body = in_text inp, data_authorName = in_authorName inp,
               data_authorEmail = in_authorEmail inp, data_status = pending\<rparr> db = Some (r, db')"
      by blast
    from review_create_SomeD(5) [OF c] obtain q where q: "rt = Fin q" "rating r = int_part q"
      by auto
    have range: "1 \<le> q" "q \<le> 5" using rt q by auto
    then have "rating r = \<lfloor>q\<rfloor>" using q by (simp add: int_part_def)
    moreover have "1 \<le> \<lfloor>q\<rfloor>" "\<lfloor>q\<rfloor> \<le> 5"
      using range by (simp_all add: le_floor_iff floor_le_iff)
    moreover have "rows db' = rows db @ [r]" using review_create_SomeD(1) [OF c] .
    ultimately show ?thesis using rt(1) q(1) range by auto
  qed
  have p3: "\<exists>q. ToNumber (in_ratingRaw inp) = Some (Fin q) \<and> 1 \<le> q \<and> q \<le> 5"
    if "OpCreate d \<in> set ops" for d
    using validate_and_create_ops [OF v that] by blast
  have p4: "resp_status resp = 400 \<and> (db', ops) = (db, []) \<and>
       (truthy (in_productIdRaw inp) \<and> BigInt_of_String (in_productIdRaw inp) \<noteq> None \<longrightarrow>
          resp = safeJson (error_body ''rating must be between 1 and 5'') 400)"
    if bad: "in_ratingRaw inp \<in> {JNum (Fin 0), JNum (Fin 6), JStr ''abc'', JNum NaN, JStr ''NaN'', JUndefined}"
  proof -
    from bad_ratings [OF bad] obtain rt where
      "ToNumber (in_ratingRaw inp) = Some rt" "\<not> isFinite rt \<or> js_less rt (Fin 1) \<or> js_less (Fin 5) rt"
      by blast
    then show ?thesis using v
      by (auto simp: validate_and_create_def safeJson_def split: if_splits option.splits)
  qed
  have p5: "(resp = safeJson (error_body ''rating must be between 1 and 5'') 400)
            = (\<not> (\<exists>q. rt = Fin q \<and> 1 \<le> q \<and> q \<le> 5))"
    if "truthy (in_productIdRaw inp) \<and> BigInt_of_String (in_productIdRaw inp) \<noteq> None \<and>
          ToNumber (in_ratingRaw inp) = Some rt" for rt
    using that v
    by (cases rt)
      (auto simp: validate_and_create_def safeJson_def submit_failed_def error_body_def isFinite_def
        Let_def split: if_splits option.splits prod.splits)
  have s: "fst (action req db) = resp" "snd (action req db) = (db', ops)"
    by (simp_all add: a v)
  show ?thesis
  proof (intro conjI impI allI)
    show "get_prop b ''rating'' = Some (in_ratingRaw inp)" by (rule p1)
    show "\<exists>q r. ToNumber (in_ratingRaw inp) = Some (Fin q) \<and> 1 \<le> q \<and> q \<le> 5 \<and>
              rows (fst (snd (action req db))) = rows db @ [r] \<and>
              rating r = \<lfloor>q\<rfloor> \<and> 1 \<le> rating r \<and> rating r \<le> 5"
      if "resp_status (fst (action req db)) = 200"
      using p2 that s by simp
    show "\<exists>q. ToNumber (in_ratingRaw inp) = Some (Fin q) \<and> 1 \<le> q \<and> q \<le> 5"
      if "\<exists>d. OpCreate d \<in> set (snd (snd (action req db)))"
      using p3 that s by auto
    show "resp_status (fst (action req db)) = 400"
      if "in_ratingRaw inp \<in> {JNum (Fin 0), JNum (Fin 6), JStr ''abc'', JNum NaN, JStr ''NaN'', JUndefined}"
      using p4 [OF that] s by simp
    show "snd (action req db) = (db, [])"
      if "in_ratingRaw inp \<in> {JNum (Fin 0), JNum (Fin 6), JStr ''abc'', JNum NaN, JStr ''NaN'', JUndefined}"
      using p4 [OF that] s by simp
    show "fst (action req db) = safeJson (error_body ''rating must be between 1 and 5'') 400"
      if "in_ratingRaw inp \<in> {JNum (Fin 0), JNum (Fin 6), JStr ''abc'', JNum NaN, JStr ''NaN'', JUndefined}"
        and "truthy (in_productIdRaw inp) \<and> BigInt_of_String (in_productIdRaw inp) \<noteq> None"
      using p4 [OF that(1)] that(2) s by simp
    show "(fst (action req db) = safeJson (error_body ''rating must be between 1 and 5'') 400)
            = (\<not> (\<exists>q. rt = Fin q \<and> 1 \<le> q \<and> q \<le> 5))"
      if "truthy (in_productIdRaw inp) \<and> BigInt_of_String (in_productIdRaw inp) \<noteq> None \<and>
          ToNumber (in_ratingRaw inp) = Some rt" for rt
      using p5 [OF that] s by simp
  qed
qed

theorem C2_witness:
  "resp_status (fst (action (sample_post [tenant_header] (Some (sample_body (JStr ''42'') (JNum (Fin 0))))) sample_db)) = 400 \<and>
   snd (action (sample_post [tenant_header] (Some (sample_body (JStr ''42'') (JNum (Fin 0))))) sample_db) = (sample_db, []) \<and>
   resp_status (fst (action (sample_post [tenant_header] (Some (sample_body (JStr ''42'') (JNum (Fin 5))))) sample_db)) = 200 \<and>
   (\<exists>q. ToNumber (JNum (Fin 5)) = Some (Fin q) \<and> 1 \<le> q \<and> q \<le> 5)"
proof -
  have ok: "resp_status (fst (action (sample_post [tenant_header] (Some (sample_body (JStr ''42'') (JNum (Fin 5))))) sample_db)) = 200"
    by (simp add: eval_defs)
  show ?thesis
    using C2_rating_finite_between_1_and_5 [OF sample_post_validated, of "JStr ''42''" "JNum (Fin 0)" sample_db]
      C2_rating_finite_between_1_and_5 [OF sample_post_validated, of "JStr ''42''" "JNum (Fin 5)" sample_db] ok
    by (simp add: sample_inputs_def)
qed

subsection \<open>C6: the product identifier\<close>

text \<open>
  Claim C6. For a submission that reaches the checks, the product identifier is the
  field \<open>productId\<close> or, when that is \<open>null\<close> or \<open>undefined\<close>, the field
  \<open>product_id\<close>. A 200 means that it was truthy and that \<open>BigInt(String(_))\<close> gave an
  integer of the 64-bit range. A missing (or otherwise falsy) identifier is answered
  400 \<open>product_id is required\<close>, one that \<open>BigInt\<close> cannot parse is answered 400
  \<open>Invalid product_id\<close>, both without a call to the store, and the two answers differ.
\<close>

theorem C6_product_identifier:
  assumes "req_method req = ''POST''" "getShopFromRequest req = Some shop"
    "readBody req = Some b" "normalize_inputs b = Some inp"
  shows "(\<exists>p1 p2. get_prop b ''productId'' = Some p1 \<and> get_prop b ''product_id'' = Some p2 \<and>
            in_productIdRaw inp = (if nullish p1 then p2 else p1)) \<and>
    (resp_status (fst (action req db)) = 200 \<longrightarrow>
       truthy (in_productIdRaw inp) \<and>
       (\<exists>n. BigInt_of_String (in_productIdRaw inp) = Some n \<and> - (2 ^ 63) \<le> n \<and> n < 2 ^ 63)) \<and>
    (\<not> truthy (in_productIdRaw inp) \<longrightarrow>
       action req db = (safeJson (error_body ''product_id is required'') 400, db, [])) \<and>
    (truthy (in_productIdRaw inp) \<and> BigInt_of_String (in_productIdRaw inp) = None \<longrightarrow>
       action req db = (safeJson (error_body ''Invalid product_id'') 400, db, [])) \<and>
    safeJson (error_body ''product_id is required'') 400 \<noteq> safeJson (error_body ''Invalid product_id'') 400"
proof -
  have a: "action req db = validate_and_create shop inp db"
    using assms by (rule action_validated)
  obtain resp db' ops where v: "validate_and_create shop inp db = (resp, db', ops)"
    by (cases "validate_and_create shop inp db") auto
  have p1: "\<exists>p1 p2. get_prop b ''productId'' = Some p1 \<and> get_prop b ''product_id'' = Some p2 \<and>
            in_productIdRaw inp = (if nullish p1 then p2 else p1)"
    using assms(4) by (rule normalize_inputs_productId)
  have p2: "truthy (in_productIdRaw inp) \<and>
       (\<exists>n. BigInt_of_String (in_productIdRaw inp) = Some n \<and> - (2 ^ 63) \<le> n \<and> n < 2 ^ 63)"
    if ok: "resp_status resp = 200"
  proof -
    from validate_and_create_200 [OF v ok] obtain pid rt r where
      t: "truthy (in_productIdRaw inp)" "BigInt_of_String (in_productIdRaw inp) = Some pid" and
      c: "review_create \<lparr>data_shopDomain = shop, data_productId = pid,
               data_productHandle = in_productHandle inp, data_rating = rt, data_title = in_title inp,
               data_body = in_text inp, data_authorName = in_authorName inp,
               data_authorEmail = in_authorEmail inp, data_status = pending\<rparr> db = Some (r, db')"
      by blast
    have "fits_int64 pid" using review_create_SomeD(6) [OF c] by simp
    then show ?thesis using t by (simp add: fits_int64_def)
  qed
  have p3: "validate_and_create shop inp db = (safeJson (error_body ''product_id is required'') 400, db, [])"
    if "\<not> truthy (in_productIdRaw inp)"
    using that by (simp add: validate_and_create_def)
  have p4: "validate_and_create shop inp db = (safeJson (error_body ''Invalid product_id'') 400, db, [])"
    if "truthy (in_productIdRaw inp) \<and> BigInt_of_String (in_productIdRaw inp) = None"
    using that by (simp add: validate_and_create_def)
  have p5: "safeJson (error_body ''product_id is required'') 400 \<noteq> safeJson (error_body ''Invalid product_id'') 400"
    by (simp add: safeJson_def error_body_def)
  have s: "resp_status (fst (action req db)) = resp_status resp" by (simp add: a v)
  show ?thesis
  proof (intro conjI impI)
    show "\<exists>p1 p2. get_prop b ''productId'' = Some p1 \<and> get_prop b ''product_id'' = Some p2 \<and>
            in_productIdRaw inp = (if nullish p1 then p2 else p1)"
      by (rule p1)
    show "truthy (in_productIdRaw inp)"
      and "\<exists>n. BigInt_of_String (in_productIdRaw inp) = Some n \<and> - (2 ^ 63) \<le> n \<and> n < 2 ^ 63"
      if "resp_status (fst (action req db)) = 200"
      using p2 that s by simp_all
    show "action req db = (safeJson (error_body ''product_id is required'') 400, db, [])"
      if "\<not> truthy (in_productIdRaw inp)"
      using p3 [OF that] a by simp
    show "action req db = (safeJson (error_body ''Invalid product_id'') 400, db, [])"
      if "truthy (in_productIdRaw inp) \<and> BigInt_of_String (in_productIdRaw inp) = None"
      using p4 [OF that] a by simp
    show "safeJson (error_body ''product_id is required'') 400 \<noteq> safeJson (error_body ''Invalid product_id'') 400"
      by (rule p5)
  qed
qed

theorem C6_witness:
  "action (sample_post [tenant_header] (Some (sample_body JUndefined (JNum (Fin 5))))) sample_db
     = (safeJson (error_body ''product_id is required'') 400, sample_db, []) \<and>
   action (sample_post [tenant_header] (Some (sample_body (JStr ''abc'') (JNum (Fin 5))))) sample_db
     = (safeJson (error_body ''Invalid product_id'') 400, sample_db, []) \<and>
   resp_status (fst (action (sample_post [tenant_header] (Some (sample_body (JStr ''42'') (JNum (Fin 5))))) sample_db)) = 200 \<and>
   BigInt_of_String (JStr ''42'') = Some 42"
proof -
  have ok: "resp_status (fst (action (sample_post [tenant_header] (Some (sample_body (JStr ''42'') (JNum (Fin 5))))) sample_db)) = 200"
    by (simp add: eval_defs)
  have bad: "BigInt_of_String (JStr ''abc'') = None" "BigInt_of_String (JStr ''42'') = Some 42"
    by (simp_all add: eval_defs)
  show ?thesis
    using C6_product_identifier [OF sample_post_validated, of JUndefined "JNum (Fin 5)" sample_db]
      C6_product_identifier [OF sample_post_validated, of "JStr ''abc''" "JNum (Fin 5)" sample_db]
      ok bad
    by (simp add: sample_inputs_def)
qed

text \<open>
  The identifier \<open>"9223372036854775808"\<close> (2 to the 63) passes the checks of the
  handler, which parses with \<open>BigInt\<close>; the \<open>create\<close> fails on the BIGINT column and
  the answer is 500.
\<close>

lemma out_of_range_identifier_fails_at_create:
  "fst (action (sample_post [tenant_header]
          (Some (sample_body (JStr ''9223372036854775808'') (JNum (Fin 5))))) sample_db)
     = safeJson (error_body ''Failed to submit review'') 500 \<and>
   fst (snd (action (sample_post [tenant_header]
          (Some (sample_body (JStr ''9223372036854775808'') (JNum (Fin 5))))) sample_db)) = sample_db"
proof -
  have b: "BigInt_of_String (JStr ''9223372036854775808'') = Some 9223372036854775808"
    by (simp add: eval_defs)
  have "validate_and_create ''demo.myshopify.com''
          (sample_inputs (JStr ''9223372036854775808'') (JNum (Fin 5))) sample_db
     = (safeJson (error_body ''Failed to submit review'') 500, sample_db,
        [OpCreate \<lparr>data_shopDomain = ''demo.myshopify.com'', data_productId = 9223372036854775808,
           data_productHandle = None, data_rating = Fin 5, data_title = None,
           data_body = ''Great'', data_authorName = ''Ana'', data_authorEmail = None,
           data_status = pending\<rparr>])"
    by (simp add: validate_and_create_def sample_inputs_def b isFinite_def review_create_def
        as_int32_def int_part_def fits_int64_def submit_failed_def Let_def)
  then show ?thesis
    using action_validated [OF sample_post_validated, of "JStr ''9223372036854775808''" "JNum (Fin 5)" sample_db]
    by simp
qed

subsection \<open>C9: falsy product identifiers\<close>

text \<open>
  Claim C9 says that a product identifier that is the text \<open>"0"\<close>, the empty text or
  the number 0 is treated as not provided. The check is \<open>!productIdRaw\<close>, and the text
  \<open>"0"\<close> is not falsy: a submission with \<open>product_id: "0"\<close> is answered 200 and a
  review of product 0 is stored.
\<close>

theorem C9_counterexample:
  "in_productIdRaw (sample_inputs (JStr ''0'') (JNum (Fin 5))) = JStr ''0'' \<and>
   normalize_inputs (sample_body (JStr ''0'') (JNum (Fin 5))) = Some (sample_inputs (JStr ''0'') (JNum (Fin 5))) \<and>
   resp_status (fst (action (sample_post [tenant_header] (Some (sample_body (JStr ''0'') (JNum (Fin 5))))) sample_db)) = 200 \<and>
   map productId (rows (fst (snd (action (sample_post [tenant_header] (Some (sample_body (JStr ''0'') (JNum (Fin 5))))) sample_db)))) = [0]"
  by (simp add: eval_defs)

text \<open>
  Claim C9, amended. For a submission that reaches the checks, a product identifier
  that is the empty text or the number 0 is answered 400 \<open>product_id is required\<close>
  with no call to the store; the text \<open>"0"\<close> is never answered so, and a
  \<open>create\<close> issued for it is for product 0.
\<close>

theorem C9_falsy_identifier:
  assumes "req_method req = ''POST''" "getShopFromRequest req = Some shop"
    "readBody req = Some b" "normalize_inputs b = Some inp"
  shows "(in_productIdRaw inp \<in> {JStr [], JNum (Fin 0)} \<longrightarrow>
            action req db = (safeJson (error_body ''product_id is required'') 400, db, [])) \<and>
         (in_productIdRaw inp = JStr ''0'' \<longrightarrow>
            fst (action req db) \<noteq> safeJson (error_body ''product_id is required'') 400 \<and>
            (\<forall>d. OpCreate d \<in> set (snd (snd (action req db))) \<longrightarrow> data_productId d = 0))"
proof -
  have a: "action req db = validate_and_create shop inp db"
    using assms by (rule action_validated)
  have p1: "validate_and_create shop inp db = (safeJson (error_body ''product_id is required'') 400, db, [])"
    if "in_productIdRaw inp \<in> {JStr [], JNum (Fin 0)}"
    using that by (auto simp: validate_and_create_def)
  have p2: "fst (validate_and_create shop inp db) \<noteq> safeJson (error_body ''product_id is required'') 400 \<and>
            (\<forall>d. OpCreate d \<in> set (snd (snd (validate_and_create shop inp db))) \<longrightarrow> data_productId d = 0)"
    if z: "in_productIdRaw inp = JStr ''0''"
  proof -
    obtain resp db' ops where v: "validate_and_create shop inp db = (resp, db', ops)"
      by (cases "validate_and_create shop inp db") auto
    have "data_productId d = 0" if "OpCreate d \<in> set ops" for d
      using validate_and_create_ops [OF v that] z BigInt_of_String_zero by simp
    moreover have "resp \<noteq> safeJson (error_body ''product_id is required'') 400"
      using v z BigInt_of_String_zero
      by (auto simp: validate_and_create_def safeJson_def submit_failed_def error_body_def Let_def
          split: if_splits option.splits prod.splits)
    ultimately show ?thesis by (simp add: v)
  qed
  show ?thesis using p1 p2 by (simp add: a)
qed

theorem C9_witness:
  "action (sample_post [tenant_header] (Some (sample_body (JStr []) (JNum (Fin 5))))) sample_db
     = (safeJson (error_body ''product_id is required'') 400, sample_db, []) \<and>
   action (sample_post [tenant_header] (Some (sample_body (JNum (Fin 0)) (JNum (Fin 5))))) sample_db
     = (safeJson (error_body ''product_id is required'') 400, sample_db, []) \<and>
   fst (action (sample_post [tenant_header] (Some (sample_body (JStr ''0'') (JNum (Fin 5))))) sample_db)
     \<noteq> safeJson (error_body ''product_id is required'') 400"
  using C9_falsy_identifier [OF sample_post_validated, of "JStr []" "JNum (Fin 5)" sample_db]
    C9_falsy_identifier [OF sample_post_validated, of "JNum (Fin 0)" "JNum (Fin 5)" sample_db]
    C9_falsy_identifier [OF sample_post_validated, of "JStr ''0''" "JNum (Fin 5)" sample_db]
  by (simp add: sample_inputs_def)

subsection \<open>C3: a body that does not parse\<close>

text \<open>
  Claim C3 says that a body that fails to parse is answered 400 under any declared
  content type. With \<open>Content-Type: application/json\<close> the rejection of
  \<open>request.json()\<close> leaves \<open>readBody\<close> (only the last branch has a \<open>try\<close>) and
  reaches the \<open>catch\<close> of \<open>action\<close>: the answer is 500.
\<close>

theorem C3_counterexample:
  "req_method (sample_post [tenant_header, (''Content-Type'', ''application/json'')] None) = ''POST'' \<and>
   getShopFromRequest (sample_post [tenant_header, (''Content-Type'', ''application/json'')] None)
     = Some ''demo.myshopify.com'' \<and>
   json (sample_post [tenant_header, (''Content-Type'', ''application/json'')] None) = None \<and>
   action (sample_post [tenant_header, (''Content-Type'', ''application/json'')] None) sample_db
     = (safeJson (error_body ''Failed to submit review'') 500, sample_db, []) \<and>
   resp_status (fst (action (sample_post [tenant_header, (''Content-Type'', ''application/json'')] None) sample_db)) = 500"
proof -
  let ?r = "sample_post [tenant_header, (''Content-Type'', ''application/json'')] None"
  have r: "readBody ?r = None"
    by (simp add: readBody_def sample_post_content_type startsWith_def sample_post_facts)
  have "action ?r sample_db = (safeJson (error_body ''Failed to submit review'') 500, sample_db, [])"
    by (simp add: action_def sample_post_facts sample_post_tenant r submit_failed_def)
  then show ?thesis
    by (simp add: sample_post_facts sample_post_tenant safeJson_def)
qed

text \<open>
  Claim C3, amended. For a POST with a tenant whose body does not parse as JSON: when
  the content type declares neither JSON nor a URL-encoded form, the body reads as the
  empty object and the answer is 400 \<open>product_id is required\<close>, with no call to the
  store; when it declares JSON, or declares a form whose data cannot be read, the answer
  is 500 \<open>Failed to submit review\<close>, with no call to the store either.
\<close>

theorem C3_unparsed_body:
  assumes "req_method req = ''POST''" "getShopFromRequest req = Some shop" "json req = None"
  shows "(\<not> str_includes (content_type_of req) ''application/json'' \<and>
          \<not> str_includes (content_type_of req) ''application/x-www-form-urlencoded'' \<longrightarrow>
            readBody req = Some (JObj []) \<and>
            action req db = (safeJson (error_body ''product_id is required'') 400, db, [])) \<and>
         (str_includes (content_type_of req) ''application/json'' \<longrightarrow>
            readBody req = None \<and>
            action req db = (safeJson (error_body ''Failed to submit review'') 500, db, [])) \<and>
         (\<not> str_includes (content_type_of req) ''application/json'' \<and>
          str_includes (content_type_of req) ''application/x-www-form-urlencoded'' \<and>
          formData req = None \<longrightarrow>
            readBody req = None \<and>
            action req db = (safeJson (error_body ''Failed to submit review'') 500, db, []))"
proof -
  have p1: "readBody req = Some (JObj []) \<and>
            action req db = (safeJson (error_body ''product_id is required'') 400, db, [])"
    if "\<not> str_includes (content_type_of req) ''application/json''"
       "\<not> str_includes (content_type_of req) ''application/x-www-form-urlencoded''"
  proof -
    have r: "readBody req = Some (JObj [])"
      using that assms(3) by (simp add: readBody_def)
    show ?thesis
      using action_validated [OF assms(1,2) r normalize_empty_object, of db] r
      by (simp add: validate_and_create_def)
  qed
  have p2: "readBody req = None \<and>
            action req db = (safeJson (error_body ''Failed to submit review'') 500, db, [])"
    if "readBody req = None"
    using that assms(1,2) by (simp add: action_def submit_failed_def)
  have p3: "readBody req = None" if "str_includes (content_type_of req) ''application/json''"
    using that assms(3) by (simp add: readBody_def)
  have p4: "readBody req = None"
    if "\<not> str_includes (content_type_of req) ''application/json''"
       "str_includes (content_type_of req) ''application/x-www-form-urlencoded''" "formData req = None"
    using that by (simp add: readBody_def)
  show ?thesis
  proof (intro conjI impI)
    assume "\<not> str_includes (content_type_of req) ''application/json'' \<and>
          \<not> str_includes (content_type_of req) ''application/x-www-form-urlencoded''"
    then show "readBody req = Some (JObj [])"
      and "action req db = (safeJson (error_body ''product_id is required'') 400, db, [])"
      using p1 by simp_all
  next
    assume "str_includes (content_type_of req) ''application/json''"
    then show "readBody req = None"
      and "action req db = (safeJson (error_body ''Failed to submit review'') 500, db, [])"
      using p2 [OF p3] by simp_all
  next
    assume "\<not> str_includes (content_type_of req) ''application/json'' \<and>
          str_includes (content_type_of req) ''application/x-www-form-urlencoded'' \<and>
          formData req = None"
    then show "readBody req = None"
      and "action req db = (safeJson (error_body ''Failed to submit review'') 500, db, [])"
      using p2 [OF p4] by simp_all
  qed
qed

theorem C3_witness:
  "action (sample_post [tenant_header] None) sample_db
     = (safeJson (error_body ''product_id is required'') 400, sample_db, []) \<and>
   action (sample_post [tenant_header, (''Content-Type'', ''application/json'')] None) sample_db
     = (safeJson (error_body ''Failed to submit review'') 500, sample_db, []) \<and>
   action (sample_post [tenant_header, (''Content-Type'', ''application/x-www-form-urlencoded'')] None) sample_db
     = (safeJson (error_body ''Failed to submit review'') 500, sample_db, [])"
proof -
  have w1: "action (sample_post [tenant_header] None) sample_db
     = (safeJson (error_body ''product_id is required'') 400, sample_db, [])"
    using C3_unparsed_body [OF sample_post_facts(1) sample_post_tenant(1) sample_post_facts(2), of sample_db]
    by (simp add: sample_post_content_type)
  have w2: "action (sample_post [tenant_header, (''Content-Type'', ''application/json'')] None) sample_db
     = (safeJson (error_body ''Failed to submit review'') 500, sample_db, [])"
    using C3_unparsed_body [OF sample_post_facts(1)
        sample_post_tenant(2) [of "''application/json''" None] sample_post_facts(2), of sample_db]
    by (simp add: sample_post_content_type startsWith_def)
  have w3: "action (sample_post [tenant_header, (''Content-Type'', ''application/x-www-form-urlencoded'')] None) sample_db
     = (safeJson (error_body ''Failed to submit review'') 500, sample_db, [])"
    using C3_unparsed_body [OF sample_post_facts(1)
        sample_post_tenant(2) [of "''application/x-www-form-urlencoded''" None] sample_post_facts(2),
        of sample_db]
    by (simp add: sample_post_content_type startsWith_def sample_post_facts)
  show ?thesis using w1 w2 w3 by simp
qed

subsection \<open>C4: no tenant, no store\<close>

text \<open>
  Claim C4. When no source yields a tenant (the tenant header and the \<open>shop\<close>
  parameter are absent or empty, and the host the resolver looks at, the first
  non-empty of the forwarded-host header, the host header and the host of the URL, is
  no shop domain), the list handler answers 401 without a call to the store, and the
  submit handler makes no call to the store, leaves it as it was, and answers 401 to a
  POST (another method is answered 405 before the tenant is looked at).
\<close>

theorem C4_unresolved_tenant_401:
  assumes "headers_get (headers req) ''x-shopify-shop-domain'' \<in> {None, Some []}"
    and "searchParams_get (url req) ''shop'' \<in> {None, Some []}"
    and "or_else (headers_get (headers req) ''x-forwarded-host'')
           (or_else (headers_get (headers req) ''host'') (Some (host (url req)))) = Some c"
    and "\<not> myshopify_test c"
  shows "resp_status (fst (loader req db)) = 401 \<and> snd (loader req db) = [] \<and>
         snd (action req db) = (db, []) \<and>
         (req_method req = ''POST'' \<longrightarrow> resp_status (fst (action req db)) = 401)"
proof -
  have n: "getShopFromRequest req = None"
    using assms getShopFromRequest_None_iff [of req] by blast
  have l: "resp_status (fst (loader req db)) = 401 \<and> snd (loader req db) = []"
    by (simp add: loader_def n safeJson_def)
  have a: "snd (action req db) = (db, [])"
    "req_method req = ''POST'' \<Longrightarrow> resp_status (fst (action req db)) = 401"
    by (simp_all add: action_def n safeJson_def)
  show ?thesis using l a by simp
qed

theorem C4_witness:
  "resp_status (fst (loader (sample_get [] ''reviews.example.com'' [(''product_id'', ''42'')]) sample_db)) = 401 \<and>
   snd (loader (sample_get [] ''reviews.example.com'' [(''product_id'', ''42'')]) sample_db) = [] \<and>
   snd (action (sample_post [] (Some (sample_body (JStr ''42'') (JNum (Fin 5))))) sample_db) = (sample_db, []) \<and>
   resp_status (fst (action (sample_post [] (Some (sample_body (JStr ''42'') (JNum (Fin 5))))) sample_db)) = 401"
proof -
  have g: "resp_status (fst (loader (sample_get [] ''reviews.example.com'' [(''product_id'', ''42'')]) sample_db)) = 401 \<and>
      snd (loader (sample_get [] ''reviews.example.com'' [(''product_id'', ''42'')]) sample_db) = []"
    using C4_unresolved_tenant_401 [of "sample_get [] ''reviews.example.com'' [(''product_id'', ''42'')]"
        "''reviews.example.com''" sample_db]
    by (simp add: sample_get_facts no_headers searchParams_get_def sample_hosts)
  have p: "snd (action (sample_post [] (Some (sample_body (JStr ''42'') (JNum (Fin 5))))) sample_db) = (sample_db, []) \<and>
      resp_status (fst (action (sample_post [] (Some (sample_body (JStr ''42'') (JNum (Fin 5))))) sample_db)) = 401"
    using C4_unresolved_tenant_401 [of "sample_post [] (Some (sample_body (JStr ''42'') (JNum (Fin 5))))"
        "''reviews.example.com''" sample_db]
    by (simp add: sample_post_facts no_headers searchParams_get_def sample_hosts)
  show ?thesis using g p by simp
qed

subsection \<open>C8: the order of the sources\<close>

text \<open>
  Claim C8 ends with: if none of the header, the \<open>shop\<close> parameter, the
  forwarded-host header and the host header yields a value, resolution fails. With all
  four absent the resolver still looks at the host of the request URL.
\<close>

theorem C8_counterexample:
  "headers_get (headers (sample_get [] ''demo.myshopify.com'' [])) ''x-shopify-shop-domain'' = None \<and>
   searchParams_get (url (sample_get [] ''demo.myshopify.com'' [])) ''shop'' = None \<and>
   headers_get (headers (sample_get [] ''demo.myshopify.com'' [])) ''x-forwarded-host'' = None \<and>
   headers_get (headers (sample_get [] ''demo.myshopify.com'' [])) ''host'' = None \<and>
   getShopFromRequest (sample_get [] ''demo.myshopify.com'' []) = Some ''demo.myshopify.com''"
  by (simp add: getShopFromRequest_def sample_get_facts no_headers searchParams_get_def sample_hosts)

text \<open>
  Claim C8, amended. A non-empty tenant header is the tenant. Otherwise a non-empty
  \<open>shop\<close> parameter is. Otherwise one host is looked at, the first non-empty of the
  forwarded-host header, the host header and the host of the request URL, and it is
  the tenant exactly when it ends with \<open>.myshopify.com\<close>, letters compared without
  case; when it does not, resolution fails.
\<close>

theorem C8_resolution_order:
  "(\<forall>h. headers_get (headers req) ''x-shopify-shop-domain'' = Some h \<and> h \<noteq> [] \<longrightarrow>
        getShopFromRequest req = Some h) \<and>
   (\<forall>q. headers_get (headers req) ''x-shopify-shop-domain'' \<in> {None, Some []} \<and>
        searchParams_get (url req) ''shop'' = Some q \<and> q \<noteq> [] \<longrightarrow>
        getShopFromRequest req = Some q) \<and>
   (\<forall>c. headers_get (headers req) ''x-shopify-shop-domain'' \<in> {None, Some []} \<and>
        searchParams_get (url req) ''shop'' \<in> {None, Some []} \<and>
        or_else (headers_get (headers req) ''x-forwarded-host'')
          (or_else (headers_get (headers req) ''host'') (Some (host (url req)))) = Some c \<longrightarrow>
        getShopFromRequest req = (if \<exists>p. toLowerCase c = p @ ''.myshopify.com'' then Some c else None))"
proof (intro conjI allI impI)
  fix h
  assume "headers_get (headers req) ''x-shopify-shop-domain'' = Some h \<and> h \<noteq> []"
  then show "getShopFromRequest req = Some h"
    by (simp add: getShopFromRequest_def)
next
  fix q
  assume "headers_get (headers req) ''x-shopify-shop-domain'' \<in> {None, Some []} \<and>
        searchParams_get (url req) ''shop'' = Some q \<and> q \<noteq> []"
  then show "getShopFromRequest req = Some q"
    by (auto simp: getShopFromRequest_def)
next
  fix c
  assume a: "headers_get (headers req) ''x-shopify-shop-domain'' \<in> {None, Some []} \<and>
        searchParams_get (url req) ''shop'' \<in> {None, Some []} \<and>
        or_else (headers_get (headers req) ''x-forwarded-host'')
          (or_else (headers_get (headers req) ''host'') (Some (host (url req)))) = Some c"
  have e: "myshopify_test c \<Longrightarrow> c \<noteq> []"
    by (auto simp: myshopify_test_iff toLowerCase_def)
  have "or_else (headers_get (headers req) ''x-shopify-shop-domain'') None = None"
    "or_else (searchParams_get (url req) ''shop'') None = None"
    using a by (simp_all add: or_else_None_iff)
  then have "getShopFromRequest req = (if myshopify_test c then Some c else None)"
    using a e by (auto simp: getShopFromRequest_def)
  then show "getShopFromRequest req = (if \<exists>p. toLowerCase c = p @ ''.myshopify.com'' then Some c else None)"
    by (simp add: myshopify_test_iff)
qed

theorem C8_witness:
  "getShopFromRequest (sample_get [tenant_header] ''reviews.example.com'' [(''shop'', ''other.example'')])
     = Some ''demo.myshopify.com'' \<and>
   getShopFromRequest (sample_get [] ''demo.myshopify.com'' [(''shop'', ''other.example'')])
     = Some ''other.example'' \<and>
   getShopFromRequest (sample_get [(''Host'', ''demo.myshopify.com'')] ''reviews.example.com'' [])
     = Some ''demo.myshopify.com'' \<and>
   getShopFromRequest (sample_get [(''Host'', ''reviews.example.com'')] ''demo.myshopify.com'' []) = None"
proof -
  have w1: "getShopFromRequest (sample_get [tenant_header] ''reviews.example.com'' [(''shop'', ''other.example'')])
     = Some ''demo.myshopify.com''"
    using C8_resolution_order [of "sample_get [tenant_header] ''reviews.example.com'' [(''shop'', ''other.example'')]"]
    by (simp add: sample_get_facts sample_get_headers)
  have w2: "getShopFromRequest (sample_get [] ''demo.myshopify.com'' [(''shop'', ''other.example'')])
     = Some ''other.example''"
    using C8_resolution_order [of "sample_get [] ''demo.myshopify.com'' [(''shop'', ''other.example'')]"]
    by (simp add: sample_get_facts no_headers searchParams_get_def)
  have w3: "getShopFromRequest (sample_get [(''Host'', ''demo.myshopify.com'')] ''reviews.example.com'' [])
     = Some ''demo.myshopify.com''"
    using C8_resolution_order [of "sample_get [(''Host'', ''demo.myshopify.com'')] ''reviews.example.com'' []"]
      sample_hosts(2)
    by (simp add: sample_get_facts sample_get_headers searchParams_get_def myshopify_test_iff)
  have w4: "getShopFromRequest (sample_get [(''Host'', ''reviews.example.com'')] ''demo.myshopify.com'' []) = None"
    using C8_resolution_order [of "sample_get [(''Host'', ''reviews.example.com'')] ''demo.myshopify.com'' []"]
      sample_hosts(1)
    by (simp add: sample_get_facts sample_get_headers searchParams_get_def myshopify_test_iff)
  show ?thesis using w1 w2 w3 w4 by simp
qed

subsection \<open>C10: the host of the URL\<close>

text \<open>
  Claim C10. With the tenant header, the \<open>shop\<close> parameter, the forwarded-host header
  and the host header all absent, a request whose URL host ends with
  \<open>.myshopify.com\<close> (letters compared without case) resolves to that host, and
  neither handler answers 401.
\<close>

theorem C10_url_host_fallback:
  assumes "headers_get (headers req) ''x-shopify-shop-domain'' = None"
    and "searchParams_get (url req) ''shop'' = None"
    and "headers_get (headers req) ''x-forwarded-host'' = None"
    and "headers_get (headers req) ''host'' = None"
    and "toLowerCase (host (url req)) = p @ ''.myshopify.com''"
  shows "getShopFromRequest req = Some (host (url req)) \<and>
         resp_status (fst (loader req db)) \<noteq> 401 \<and>
         resp_status (fst (action req db)) \<noteq> 401"
proof -
  have m: "myshopify_test (host (url req))"
    using assms(5) by (auto simp: myshopify_test_iff)
  then have "host (url req) \<noteq> []"
    by (auto simp: myshopify_test_iff toLowerCase_def)
  then have g: "getShopFromRequest req = Some (host (url req))"
    using assms(1-4) m by (simp add: getShopFromRequest_def)
  show ?thesis
    using g loader_resolved_not_401 [OF g] action_resolved_not_401 [OF g] by simp
qed

theorem C10_witness:
  "getShopFromRequest (sample_get [] ''demo.myshopify.com'' [(''product_id'', ''42'')])
     = Some ''demo.myshopify.com'' \<and>
   resp_status (fst (loader (sample_get [] ''demo.myshopify.com'' [(''product_id'', ''42'')]) sample_db)) \<noteq> 401"
proof -
  have l: "toLowerCase ''demo.myshopify.com'' = ''demo'' @ ''.myshopify.com''"
    by (simp add: toLowerCase_def to_lower_def)
  show ?thesis
    using C10_url_host_fallback [of "sample_get [] ''demo.myshopify.com'' [(''product_id'', ''42'')]"
        "''demo''" sample_db] l
    by (simp add: sample_get_facts no_headers searchParams_get_def)
qed

subsection \<open>C5: the status filter\<close>

text \<open>
  Claim C5 says that a status parameter that names no known status falls back to
  \<open>approved\<close> without an error. \<open>loader_status_default\<close> above shows it for an
  absent parameter and for every name that is no property of the enumeration object.
  The lookup \<open>ReviewStatus[statusParam]\<close> also finds what the object inherits: for
  \<open>status=constructor\<close> it yields a function, \<open>??\<close> keeps it, the store refuses the
  query and the handler answers 500.
\<close>

theorem C5_prototype_name_is_no_fallback:
  assumes "getShopFromRequest req = Some shop"
    and "searchParams_get (url req) ''product_id'' = Some t" and "t \<noteq> []"
    and "StringToBigInt t = Some pid"
    and "searchParams_get (url req) ''status'' = Some ''constructor''"
  shows "ReviewStatus_get ''constructor'' = Some ProtoFunction \<and>
         loader req db =
           (safeJson (error_body ''Failed to load reviews'') 500,
            [OpFindMany \<lparr>where_shopDomain = shop, where_productId = pid, where_status = ProtoFunction\<rparr>]) \<and>
         resp_status (fst (loader req db)) = 500"
proof -
  have r: "ReviewStatus_get ''constructor'' = Some ProtoFunction"
    by (simp add: ReviewStatus_get_def Object_prototype_functions_def)
  have "loader req db =
           (safeJson (error_body ''Failed to load reviews'') 500,
            [OpFindMany \<lparr>where_shopDomain = shop, where_productId = pid, where_status = ProtoFunction\<rparr>])"
    using assms by (simp add: loader_def r review_findMany_def load_failed_def)
  then show ?thesis using r by (simp add: safeJson_def)
qed

theorem C5_witness:
  "loader (sample_get [tenant_header] ''reviews.example.com'' [(''product_id'', ''42''), (''status'', ''constructor'')])
     sample_db =
     (safeJson (error_body ''Failed to load reviews'') 500,
      [OpFindMany \<lparr>where_shopDomain = ''demo.myshopify.com'', where_productId = 42,
                   where_status = ProtoFunction\<rparr>])"
proof -
  have g: "getShopFromRequest (sample_get [tenant_header] ''reviews.example.com''
              [(''product_id'', ''42''), (''status'', ''constructor'')]) = Some ''demo.myshopify.com''"
    by (simp add: getShopFromRequest_def sample_get_facts sample_get_headers)
  have b: "StringToBigInt ''42'' = Some 42"
    by (simp add: eval_defs)
  show ?thesis
    using C5_prototype_name_is_no_fallback [OF g _ _ b, of sample_db]
    by (simp add: sample_get_facts searchParams_get_def)
qed

subsection \<open>C7: the product identifier in a payload\<close>

text \<open>
  Claim C7 says that a review created with the product identifier
  \<open>"123456789012345"\<close> is returned by a subsequent list for that product. A new
  review is \<open>pending\<close> and a list with no \<open>status\<close> parameter filters on
  \<open>approved\<close>: right after the submission is answered 200, the list for that tenant
  and product is answered 200 with no review in it.
\<close>

theorem C7_counterexample:
  "resp_status (fst (action (sample_post [tenant_header]
       (Some (sample_body (JStr ''123456789012345'') (JNum (Fin 5))))) sample_db)) = 200 \<and>
   getShopFromRequest (sample_get [tenant_header] ''reviews.example.com''
       [(''product_id'', ''123456789012345'')]) = Some ''demo.myshopify.com'' \<and>
   searchParams_get (url (sample_get [tenant_header] ''reviews.example.com''
       [(''product_id'', ''123456789012345'')])) ''product_id'' = Some ''123456789012345'' \<and>
   fst (loader (sample_get [tenant_header] ''reviews.example.com'' [(''product_id'', ''123456789012345'')])
          (fst (snd (action (sample_post [tenant_header]
             (Some (sample_body (JStr ''123456789012345'') (JNum (Fin 5))))) sample_db))))
     = safeJson (DObj [(''ok'', DBool True), (''reviews'', DArr [])]) 200"
proof -
  let ?R = "sample_post [tenant_header] (Some (sample_body (JStr ''123456789012345'') (JNum (Fin 5))))"
  let ?L = "sample_get [tenant_header] ''reviews.example.com'' [(''product_id'', ''123456789012345'')]"
  let ?row = "\<lparr>review_id = ''r0'', shopDomain = ''demo.myshopify.com'', productId = 123456789012345,
      productHandle = None, rating = 5, title = None, body = ''Great'', authorName = ''Ana'',
      authorEmail = None, status = pending, createdAt = 1760801354000\<rparr>"
  let ?db = "\<lparr>rows = [?row], clock = 1760801354001, next_id = Suc 0\<rparr>"
  let ?w = "\<lparr>where_shopDomain = ''demo.myshopify.com'', where_productId = 123456789012345,
      where_status = StatusIs approved\<rparr>"
  have "validate_and_create ''demo.myshopify.com''
          (sample_inputs (JStr ''123456789012345'') (JNum (Fin 5))) sample_db
     = (safeJson (DObj [(''ok'', DBool True), (''review'', review_object ?row)]) 200, ?db,
        [OpCreate \<lparr>data_shopDomain = ''demo.myshopify.com'', data_productId = 123456789012345,
           data_productHandle = None, data_rating = Fin 5, data_title = None,
           data_body = ''Great'', data_authorName = ''Ana'', data_authorEmail = None,
           data_status = pending\<rparr>])"
    by (simp add: validate_and_create_def sample_inputs_def sample_id_text isFinite_def
        review_create_def as_int32_def int_part_def fits_int64_def sample_db_def dec_digits.simps
        Let_def)
  then have a: "action ?R sample_db
     = (safeJson (DObj [(''ok'', DBool True), (''review'', review_object ?row)]) 200, ?db,
        [OpCreate \<lparr>data_shopDomain = ''demo.myshopify.com'', data_productId = 123456789012345,
           data_productHandle = None, data_rating = Fin 5, data_title = None,
           data_body = ''Great'', data_authorName = ''Ana'', data_authorEmail = None,
           data_status = pending\<rparr>])"
    using action_validated [OF sample_post_validated, of "JStr ''123456789012345''" "JNum (Fin 5)" sample_db]
    by simp
  have g: "getShopFromRequest ?L = Some ''demo.myshopify.com''"
    by (simp add: getShopFromRequest_def sample_get_facts sample_get_headers)
  have q: "searchParams_get (url ?L) ''product_id'' = Some ''123456789012345''"
    "searchParams_get (url ?L) ''status'' = None"
    by (simp_all add: searchParams_get_def sample_get_facts)
  have f: "review_findMany ?w ?db = Some []"
    by (simp add: review_findMany_def fits_int64_def where_matches_def status_matches_def)
  have w: "?w = \<lparr>where_shopDomain = ''demo.myshopify.com'', where_productId = 123456789012345,
      where_status =
        (case ReviewStatus_get (case searchParams_get (url ?L) ''status'' of
                                  Some v \<Rightarrow> v | None \<Rightarrow> ''approved'') of
           Some a \<Rightarrow> a | None \<Rightarrow> StatusIs approved)\<rparr>"
    by (simp add: q(2) ReviewStatus_get_approved)
  have "loader ?L ?db =
      (case review_findMany ?w ?db of
         None \<Rightarrow> (load_failed, [OpFindMany ?w])
       | Some reviews \<Rightarrow>
           (safeJson (DObj [(''ok'', DBool True), (''reviews'', DArr (map review_object reviews))]) 200,
            [OpFindMany ?w]))"
    by (rule loader_listing [OF g q(1) _ sample_id_text(2) w]) simp
  then have l: "fst (loader ?L ?db) = safeJson (DObj [(''ok'', DBool True), (''reviews'', DArr [])]) 200"
    unfolding f by simp
  show ?thesis
    using a g q(1) l by (simp add: safeJson_def)
qed

text \<open>
  Claim C7, amended. A submission with the product identifier \<open>"123456789012345"\<close>
  that is answered 200 has stored one row; its answer shows the identifier as the text
  \<open>"123456789012345"\<close>, and a list for the same tenant and product with
  \<open>status=pending\<close> (the status of a new review) on the resulting store is answered
  200 with that review first in it and the same text as its identifier. In every
  payload of either handler no BigInt is left, and the identifier of a review is
  written as its decimal text.
\<close>

theorem C7_product_id_round_trip:
  assumes "req_method req = ''POST''" and "getShopFromRequest req = Some shop"
    and "readBody req = Some b" and "normalize_inputs b = Some inp"
    and "in_productIdRaw inp = JStr ''123456789012345''"
    and "store_ok db"
    and "action req db = (resp, db', ops)" and "resp_status resp = 200"
    and "getShopFromRequest lreq = Some shop"
    and "searchParams_get (url lreq) ''product_id'' = Some ''123456789012345''"
    and "searchParams_get (url lreq) ''status'' = Some ''pending''"
  shows "(\<exists>r rs. rows db' = rows db @ [r] \<and>
            payload resp = DObj [(''ok'', DBool True), (''review'', replacer (review_object r))] \<and>
            obj_field (replacer (review_object r)) ''productId'' = Some (DStr ''123456789012345'') \<and>
            resp_status (fst (loader lreq db')) = 200 \<and>
            payload (fst (loader lreq db'))
              = DObj [(''ok'', DBool True), (''reviews'', DArr (replacer (review_object r) # rs))]) \<and>
         (\<forall>rq s. bigint_free (payload (fst (loader rq s))) \<and> bigint_free (payload (fst (action rq s)))) \<and>
         (\<forall>x. obj_field (replacer (review_object x)) ''productId''
                 = Some (DStr (bigint_toString (productId x))))"
proof -
  have v: "validate_and_create shop inp db = (resp, db', ops)"
    using action_validated [OF assms(1-4), of db] assms(7) by simp
  from validate_and_create_200 [OF v assms(8)] obtain pid rt r where
    pid: "BigInt_of_String (in_productIdRaw inp) = Some pid" and
    c: "review_create \<lparr>data_shopDomain = shop, data_productId = pid,
               data_productHandle = in_productHandle inp, data_rating = rt, data_title = in_title inp,
               data_body = in_text inp, data_authorName = in_authorName inp,
               data_authorEmail = in_authorEmail inp, data_status = pending\<rparr> db = Some (r, db')" and
    p: "resp = safeJson (DObj [(''ok'', DBool True), (''review'', review_object r)]) 200"
    by blast
  have pid_eq: "pid = 123456789012345"
    using pid assms(5) sample_id_text(1) by simp
  have r: "rows db' = rows db @ [r]" "status r = pending" "productId r = 123456789012345"
    "shopDomain r = shop" "createdAt r = clock db"
    using review_create_SomeD(1-4,7) [OF c] pid_eq by simp_all
  let ?w = "\<lparr>where_shopDomain = shop, where_productId = 123456789012345, where_status = StatusIs pending\<rparr>"
  let ?key = "\<lambda>x. - int (createdAt x)"
  let ?old = "filter (where_matches ?w) (rows db)"
  let ?rest = "take 49 (sort_key ?key ?old)"
  have m: "where_matches ?w r"
    by (simp add: where_matches_def status_matches_def r)
  have older: "\<forall>x \<in> set ?old. ?key r < ?key x"
    using assms(6) by (auto simp: store_ok_def list_all_iff r(5))
  have "sort_key ?key (filter (where_matches ?w) (rows db')) = r # sort_key ?key ?old"
    using sort_key_newest [OF older] m by (simp add: r(1))
  then have f: "review_findMany ?w db' = Some (r # ?rest)"
    by (simp add: review_findMany_def fits_int64_def)
  have l: "loader lreq db' =
      (safeJson (DObj [(''ok'', DBool True), (''reviews'', DArr (map review_object (r # ?rest)))]) 200,
       [OpFindMany ?w])"
    using loader_listing [OF assms(9) assms(10) _ sample_id_text(2) refl, of db'] f
    by (simp add: assms(11) ReviewStatus_get_pending)
  have first: "\<exists>r rs. rows db' = rows db @ [r] \<and>
            payload resp = DObj [(''ok'', DBool True), (''review'', replacer (review_object r))] \<and>
            obj_field (replacer (review_object r)) ''productId'' = Some (DStr ''123456789012345'') \<and>
            resp_status (fst (loader lreq db')) = 200 \<and>
            payload (fst (loader lreq db'))
              = DObj [(''ok'', DBool True), (''reviews'', DArr (replacer (review_object r) # rs))]"
  proof (intro exI conjI)
    show "rows db' = rows db @ [r]" by (rule r(1))
    show "payload resp = DObj [(''ok'', DBool True), (''review'', replacer (review_object r))]"
      by (simp add: p safeJson_def)
    show "obj_field (replacer (review_object r)) ''productId'' = Some (DStr ''123456789012345'')"
      by (simp add: productId_rendered r(3) sample_id_text(3))
    show "resp_status (fst (loader lreq db')) = 200"
      by (simp add: l safeJson_def)
    show "payload (fst (loader lreq db'))
            = DObj [(''ok'', DBool True),
                    (''reviews'', DArr (replacer (review_object r) # map replacer (map review_object ?rest)))]"
      by (simp add: l safeJson_def)
  qed
  show ?thesis
    using first loader_bigint_free action_bigint_free productId_rendered by blast
qed

theorem C7_witness:
  "resp_status (fst (action (sample_post [tenant_header]
       (Some (sample_body (JStr ''123456789012345'') (JNum (Fin 5))))) sample_db)) = 200 \<and>
   (\<exists>r rs. payload (fst (loader (sample_get [tenant_header] ''reviews.example.com''
                  [(''product_id'', ''123456789012345''), (''status'', ''pending'')])
                (fst (snd (action (sample_post [tenant_header]
                  (Some (sample_body (JStr ''123456789012345'') (JNum (Fin 5))))) sample_db)))))
              = DObj [(''ok'', DBool True), (''reviews'', DArr (replacer (review_object r) # rs))] \<and>
            obj_field (replacer (review_object r)) ''productId'' = Some (DStr ''123456789012345''))"
proof -
  let ?R = "sample_post [tenant_header] (Some (sample_body (JStr ''123456789012345'') (JNum (Fin 5))))"
  let ?L = "sample_get [tenant_header] ''reviews.example.com''
              [(''product_id'', ''123456789012345''), (''status'', ''pending'')]"
  obtain resp db' ops where a: "action ?R sample_db = (resp, db', ops)"
    by (cases "action ?R sample_db") auto
  have v: "action ?R sample_db
             = validate_and_create ''demo.myshopify.com''
                 (sample_inputs (JStr ''123456789012345'') (JNum (Fin 5))) sample_db"
    by (rule action_validated [OF sample_post_validated])
  have "resp_status (fst (validate_and_create ''demo.myshopify.com''
                 (sample_inputs (JStr ''123456789012345'') (JNum (Fin 5))) sample_db)) = 200"
    by (simp add: validate_and_create_def sample_inputs_def sample_id_text isFinite_def
        review_create_def as_int32_def int_part_def fits_int64_def safeJson_def sample_db_def Let_def)
  then have ok: "resp_status resp = 200" using a v by simp
  have g: "getShopFromRequest ?L = Some ''demo.myshopify.com''"
    by (simp add: getShopFromRequest_def sample_get_facts sample_get_headers)
  have q: "searchParams_get (url ?L) ''product_id'' = Some ''123456789012345''"
    "searchParams_get (url ?L) ''status'' = Some ''pending''"
    by (simp_all add: searchParams_get_def sample_get_facts)
  have e: "store_ok sample_db"
    unfolding sample_db_def by (rule store_ok_empty)
  have i: "in_productIdRaw (sample_inputs (JStr ''123456789012345'') (JNum (Fin 5))) = JStr ''123456789012345''"
    by (simp add: sample_inputs_def)
  from C7_product_id_round_trip [OF sample_post_validated i e a ok g q]
  show ?thesis using a ok by auto
qed

end
